theory Spec2Isabelle
  imports Complex_Main
    "HOL-Library.Monad_Syntax"
    "HOL-Library.Char_ord"
    "HOL-Library.List_Lexorder"
    "HOL-Library.Sublist"
begin

section \<open>JSON values as Python sees them\<close>

text \<open>
  \<^verbatim>\<open>json.loads\<close> yields \<^verbatim>\<open>None\<close>, booleans, integers, floats, strings, lists and
  dictionaries with string keys. Strings are byte lists in UTF-8 (the key
  \<^verbatim>\<open>Carte m\<close>..\<^verbatim>\<open>re\<close> holds the two bytes C3 A8), a dictionary is an association list read
  with \<^const>\<open>map_of\<close>.
\<close>

datatype json =
    JNull
  | JBool bool
  | JInt int
  | JFloat real
  | JStr string
  | JArr "json list"
  | JObj "(string \<times> json) list"

text \<open>Truth value testing: \<^verbatim>\<open>if v\<close>, \<^verbatim>\<open>not v\<close>.\<close>

fun truthy :: "json \<Rightarrow> bool" where
  "truthy JNull = False"
| "truthy (JBool b) = b"
| "truthy (JInt n) = (n \<noteq> 0)"
| "truthy (JFloat x) = (x \<noteq> 0)"
| "truthy (JStr s) = (s \<noteq> [])"
| "truthy (JArr xs) = (xs \<noteq> [])"
| "truthy (JObj kvs) = (kvs \<noteq> [])"

text \<open>
  \<^verbatim>\<open>d.get(k, default)\<close>. Only a dictionary has the method: on any other value the
  call raises \<^verbatim>\<open>AttributeError\<close>, which is \<open>None\<close> here.
\<close>

fun dict_get :: "json \<Rightarrow> string \<Rightarrow> json \<Rightarrow> json option" where
  "dict_get (JObj kvs) k dflt = Some (case map_of kvs k of Some v \<Rightarrow> v | None \<Rightarrow> dflt)"
| "dict_get _ k dflt = None"

text \<open>
  Library functions the repository calls and does not define: \<^verbatim>\<open>repr\<close> of a value that
  is not a string, \<^verbatim>\<open>hashlib.md5(...).hexdigest()\<close>, the validation pydantic runs for
  \<^verbatim>\<open>StaticData(**content)\<close> on a dictionary, and the way MongoDB matches a stored
  string against a query value that is neither a string nor \<^verbatim>\<open>None\<close> (it reads a
  dictionary such as \<^verbatim>\<open>{"$ne": "x"}\<close> as an operator, not as a value). They are
  parameters of the model.
\<close>

record pylib =
  py_repr :: "json \<Rightarrow> string"
  md5_hexdigest :: "string \<Rightarrow> string"
  StaticData_valid :: "json \<Rightarrow> bool"
  mongo_matches :: "json \<Rightarrow> string \<Rightarrow> bool"

text \<open>A replacement field \<^verbatim>\<open>f"{v}"\<close>: a string goes in as it is, anything else as its repr.\<close>

definition py_format :: "pylib \<Rightarrow> json \<Rightarrow> string" where
  "py_format lib v = (case v of JStr s \<Rightarrow> s | _ \<Rightarrow> py_repr lib v)"

definition Carte_mere :: string where
  "Carte_mere = ''Carte m'' @ [CHR 0xC3, CHR 0xA8] @ ''re''"

definition Modele :: string where
  "Modele = ''Mod'' @ [CHR 0xC3, CHR 0xA8] @ ''le''"

section \<open>Identity derivation\<close>

text \<open>
  \<^verbatim>\<open>users[0].get('username', '') if users else ''\<close>: a non-empty list gives its first
  element, whose \<^verbatim>\<open>get\<close> raises unless it is a dictionary. Any other truthy value
  raises as well (a dictionary has no key 0, a number or boolean is not subscriptable,
  a character of a string has no \<^verbatim>\<open>get\<close>); a falsy value gives the empty string.
\<close>

definition first_username :: "json \<Rightarrow> json option" where
  "first_username users =
     (case users of
        JArr (u # _) \<Rightarrow> dict_get u ''username'' (JStr '''')
      | _ \<Rightarrow> if truthy users then None else Some (JStr ''''))"

text \<open>
  \<^verbatim>\<open>MonitoringServer.generate_machine_id\<close> (server.py). The \<^verbatim>\<open>try\<close> block returns
  \<^verbatim>\<open>None\<close> on any exception.
\<close>

definition generate_machine_id :: "pylib \<Rightarrow> json \<Rightarrow> string option" where
  "generate_machine_id lib static_data = do {
     os_info \<leftarrow> dict_get static_data ''os'' (JObj []);
     cpu_info \<leftarrow> dict_get static_data ''cpu'' (JObj []);
     bios_info \<leftarrow> dict_get static_data ''bios_carte_mere'' (JObj []);
     memoire_info \<leftarrow> dict_get static_data ''memoire'' (JObj []);
     users \<leftarrow> dict_get static_data ''utilisateurs_connectes'' (JArr []);
     username \<leftarrow> first_username users;
     hostname \<leftarrow> dict_get os_info ''hostname'' (JStr '''');
     nom \<leftarrow> dict_get os_info ''nom'' (JStr '''');
     release \<leftarrow> dict_get os_info ''release'' (JStr '''');
     version \<leftarrow> dict_get os_info ''version'' (JStr '''');
     coeurs_logiques \<leftarrow> dict_get cpu_info ''coeurs_logiques'' (JInt 0);
     frequence_a \<leftarrow> dict_get cpu_info ''frequence'' (JObj []);
     fmin \<leftarrow> dict_get frequence_a ''min'' (JInt 0);
     frequence_b \<leftarrow> dict_get cpu_info ''frequence'' (JObj []);
     fmax \<leftarrow> dict_get frequence_b ''max'' (JInt 0);
     bios_a \<leftarrow> dict_get bios_info ''BIOS'' (JObj []);
     bios_fabricant \<leftarrow> dict_get bios_a ''Fabricant'' (JStr '''');
     bios_b \<leftarrow> dict_get bios_info ''BIOS'' (JObj []);
     bios_version \<leftarrow> dict_get bios_b ''Version'' (JStr '''');
     carte_a \<leftarrow> dict_get bios_info Carte_mere (JObj []);
     carte_fabricant \<leftarrow> dict_get carte_a ''Fabricant'' (JStr '''');
     carte_b \<leftarrow> dict_get bios_info Carte_mere (JObj []);
     carte_modele \<leftarrow> dict_get carte_b Modele (JStr '''');
     ram \<leftarrow> dict_get memoire_info ''ram'' (JObj []);
     ram_total \<leftarrow> dict_get ram ''total'' (JStr '''');
     Some (md5_hexdigest lib (concat (map (py_format lib)
       [hostname, nom, release, version, username, coeurs_logiques, fmin, fmax,
        bios_fabricant, bios_version, carte_fabricant, carte_modele, ram_total])))
   }"

text \<open>
  \<^verbatim>\<open>ZipDataProcessor.generate_machine_id\<close> (process_zipped_data.py), the copy the
  offline import of a zipped spool uses.
\<close>

definition zip_generate_machine_id :: "pylib \<Rightarrow> json \<Rightarrow> string option" where
  "zip_generate_machine_id lib static_data = do {
     os_info \<leftarrow> dict_get static_data ''os'' (JObj []);
     cpu_info \<leftarrow> dict_get static_data ''cpu'' (JObj []);
     bios_info \<leftarrow> dict_get static_data ''bios_carte_mere'' (JObj []);
     memoire_info \<leftarrow> dict_get static_data ''memoire'' (JObj []);
     users \<leftarrow> dict_get static_data ''utilisateurs_connectes'' (JArr []);
     username \<leftarrow> first_username users;
     hostname \<leftarrow> dict_get os_info ''hostname'' (JStr '''');
     nom \<leftarrow> dict_get os_info ''nom'' (JStr '''');
     release \<leftarrow> dict_get os_info ''release'' (JStr '''');
     version \<leftarrow> dict_get os_info ''version'' (JStr '''');
     coeurs_logiques \<leftarrow> dict_get cpu_info ''coeurs_logiques'' (JInt 0);
     frequence_a \<leftarrow> dict_get cpu_info ''frequence'' (JObj []);
     fmin \<leftarrow> dict_get frequence_a ''min'' (JInt 0);
     frequence_b \<leftarrow> dict_get cpu_info ''frequence'' (JObj []);
     fmax \<leftarrow> dict_get frequence_b ''max'' (JInt 0);
     bios_a \<leftarrow> dict_get bios_info ''BIOS'' (JObj []);
     bios_fabricant \<leftarrow> dict_get bios_a ''Fabricant'' (JStr '''');
     bios_b \<leftarrow> dict_get bios_info ''BIOS'' (JObj []);
     bios_version \<leftarrow> dict_get bios_b ''Version'' (JStr '''');
     carte_a \<leftarrow> dict_get bios_info Carte_mere (JObj []);
     carte_fabricant \<leftarrow> dict_get carte_a ''Fabricant'' (JStr '''');
     carte_b \<leftarrow> dict_get bios_info Carte_mere (JObj []);
     carte_modele \<leftarrow> dict_get carte_b Modele (JStr '''');
     ram \<leftarrow> dict_get memoire_info ''ram'' (JObj []);
     ram_total \<leftarrow> dict_get ram ''total'' (JStr '''');
     Some (md5_hexdigest lib (concat (map (py_format lib)
       [hostname, nom, release, version, username, coeurs_logiques, fmin, fmax,
        bios_fabricant, bios_version, carte_fabricant, carte_modele, ram_total])))
   }"

text \<open>
  The fingerprint: the thirteen values that the replacement fields of \<^verbatim>\<open>unique_string\<close>
  hold, in their order, each given by the path of reads that leads to it from the
  snapshot. A step of a path is a call \<^verbatim>\<open>.get(key, default)\<close>, or the expression that
  takes the name of the first user.
\<close>

datatype step = Key string json | First_username

fun read_step :: "step \<Rightarrow> json \<Rightarrow> json option" where
  "read_step (Key k dflt) v = dict_get v k dflt"
| "read_step First_username v = first_username v"

fun read_path :: "json \<Rightarrow> step list \<Rightarrow> json option" where
  "read_path v [] = Some v"
| "read_path v (s # p) = read_step s v \<bind> (\<lambda>w. read_path w p)"

definition fingerprint_leaves :: "step list list" where
  "fingerprint_leaves =
     [[Key ''os'' (JObj []), Key ''hostname'' (JStr [])],
      [Key ''os'' (JObj []), Key ''nom'' (JStr [])],
      [Key ''os'' (JObj []), Key ''release'' (JStr [])],
      [Key ''os'' (JObj []), Key ''version'' (JStr [])],
      [Key ''utilisateurs_connectes'' (JArr []), First_username],
      [Key ''cpu'' (JObj []), Key ''coeurs_logiques'' (JInt 0)],
      [Key ''cpu'' (JObj []), Key ''frequence'' (JObj []), Key ''min'' (JInt 0)],
      [Key ''cpu'' (JObj []), Key ''frequence'' (JObj []), Key ''max'' (JInt 0)],
      [Key ''bios_carte_mere'' (JObj []), Key ''BIOS'' (JObj []), Key ''Fabricant'' (JStr [])],
      [Key ''bios_carte_mere'' (JObj []), Key ''BIOS'' (JObj []), Key ''Version'' (JStr [])],
      [Key ''bios_carte_mere'' (JObj []), Key Carte_mere (JObj []), Key ''Fabricant'' (JStr [])],
      [Key ''bios_carte_mere'' (JObj []), Key Carte_mere (JObj []), Key Modele (JStr [])],
      [Key ''memoire'' (JObj []), Key ''ram'' (JObj []), Key ''total'' (JStr [])]]"

section \<open>The collector: persistence gateway\<close>

text \<open>
  The three MongoDB collections of \<^verbatim>\<open>MonitoringServer\<close>. \<^verbatim>\<open>datetime.now()\<close> is a
  number handed to each request. A gateway call can raise; which kind of call raises
  during a request is an input (\<open>faults\<close>), so that the \<^verbatim>\<open>except\<close> branches of the
  source are branches here.
\<close>

record machine_record =
  mr_machine_id :: string
  mr_hostname :: json
  mr_os_name :: json
  mr_last_seen :: nat
  mr_status :: string
  mr_first_seen :: nat

record static_doc =
  sd_machine_id :: string
  sd_timestamp :: nat
  sd_fields :: "(string \<times> json) list"

record variable_doc =
  vd_machine_id :: json
  vd_timestamp :: nat
  vd_fields :: "(string \<times> json) list"

record database =
  machine_ids_collection :: "machine_record list"
  static_collection :: "static_doc list"
  variable_collection :: "variable_doc list"

record faults =
  find_raises :: bool
  insert_raises :: bool
  update_raises :: bool

definition no_faults :: faults where
  "no_faults = \<lparr>find_raises = False, insert_raises = False, update_raises = False\<rparr>"

definition empty_database :: database where
  "empty_database =
     \<lparr>machine_ids_collection = [], static_collection = [], variable_collection = []\<rparr>"

text \<open>
  The filter \<^verbatim>\<open>{'machine_id': q}\<close> against a registry document. Registry documents
  always hold a string there (\<^verbatim>\<open>register_machine\<close> writes the digest). A string \<open>q\<close>
  matches the documents that hold the same string; \<^verbatim>\<open>None\<close> matches the documents whose
  field is null or missing, so none of them; any other \<open>q\<close> is matched as MongoDB reads
  it, which for a dictionary whose keys start with \<^verbatim>\<open>$\<close> is as an operator.
\<close>

definition matches :: "pylib \<Rightarrow> json \<Rightarrow> machine_record \<Rightarrow> bool" where
  "matches lib q r =
     (case q of
        JStr s \<Rightarrow> mr_machine_id r = s
      | JNull \<Rightarrow> False
      | _ \<Rightarrow> mongo_matches lib q (mr_machine_id r))"

text \<open>\<^verbatim>\<open>find_one({'machine_id': q})\<close>: the first document the filter matches.\<close>

definition find_one :: "pylib \<Rightarrow> machine_record list \<Rightarrow> json \<Rightarrow> machine_record option" where
  "find_one lib coll q = find (matches lib q) coll"

text \<open>\<^verbatim>\<open>update_one\<close> changes the first document the filter matches, if there is one.\<close>

fun update_one :: "('a \<Rightarrow> bool) \<Rightarrow> ('a \<Rightarrow> 'a) \<Rightarrow> 'a list \<Rightarrow> 'a list" where
  "update_one P f [] = []"
| "update_one P f (x # xs) = (if P x then f x # xs else x # update_one P f xs)"

definition upsert_one :: "('a \<Rightarrow> bool) \<Rightarrow> 'a \<Rightarrow> 'a list \<Rightarrow> 'a list" where
  "upsert_one P d coll = (if list_ex P coll then update_one P (\<lambda>_. d) coll else coll @ [d])"

text \<open>
  The document builders read the payload with \<^verbatim>\<open>data.get(key, default)\<close> for a fixed
  list of keys; on a payload that is not a dictionary the first call raises.
\<close>

definition get_fields :: "(string \<times> string \<times> json) list \<Rightarrow> json \<Rightarrow> (string \<times> json) list option" where
  "get_fields spec data =
     (case data of
        JObj kvs \<Rightarrow>
          Some (map (\<lambda>(field, key, dflt).
                  (field, case map_of kvs key of Some v \<Rightarrow> v | None \<Rightarrow> dflt)) spec)
      | _ \<Rightarrow> None)"

definition static_doc_spec :: "(string \<times> string \<times> json) list" where
  "static_doc_spec =
     [(''data_received'', ''timestamp'', JStr ''''),
      (''os'', ''os'', JObj []),
      (''type_machine'', ''type_machine'', JInt 0),
      (''cpu'', ''cpu'', JObj []),
      (''memoire'', ''memoire'', JObj []),
      (''disque'', ''disque'', JObj []),
      (''adresse_mac'', ''adresse_mac'', JStr ''''),
      (''resolution_ecran'', ''resolution_ecran'', JStr ''''),
      (''gpu'', ''gpu'', JObj []),
      (''interfaces_reseau'', ''interfaces_reseau'', JArr []),
      (''bios_carte_mere'', ''bios_carte_mere'', JObj []),
      (''utilisateurs_connectes'', ''utilisateurs_connectes'', JArr []),
      (''partitions_disque'', ''partitions_disque'', JArr []),
      (''peripheriques_usb'', ''peripheriques_usb'', JArr []),
      (''battery_initial'', ''battery_initial'', JObj []),
      (''heure_demarrage_systeme'', ''heure_demarrage_systeme'', JStr '''')]"

definition variable_doc_spec :: "(string \<times> string \<times> json) list" where
  "variable_doc_spec =
     [(''data_received'', ''timestamp'', JStr ''''),
      (''cpu'', ''cpu'', JObj []),
      (''memoire'', ''memoire'', JObj []),
      (''disque'', ''disque'', JObj []),
      (''gpu_utilisation'', ''gpu_utilisation'', JObj []),
      (''reseau'', ''reseau'', JObj []),
      (''connexion_internet'', ''connexion_internet'', JBool False),
      (''nombre_processus'', ''nombre_processus'', JInt 0),
      (''battery'', ''battery'', JObj []),
      (''uptime'', ''uptime'', JStr ''''),
      (''seuil_atteint'', ''seuil_atteint'', JObj [])]"

text \<open>\<^verbatim>\<open>register_machine\<close>: \<^verbatim>\<open>True\<close> and the new registry, or \<^verbatim>\<open>False\<close> on an exception.\<close>

definition register_machine ::
  "pylib \<Rightarrow> faults \<Rightarrow> nat \<Rightarrow> database \<Rightarrow> string \<Rightarrow> json \<Rightarrow> bool \<times> database" where
  "register_machine lib flt now db machine_id static_data =
     (case do {
             os_a \<leftarrow> dict_get static_data ''os'' (JObj []);
             h \<leftarrow> dict_get os_a ''hostname'' (JStr ''Unknown'');
             os_b \<leftarrow> dict_get static_data ''os'' (JObj []);
             n \<leftarrow> dict_get os_b ''nom'' (JStr ''Unknown'');
             Some (h, n) } of
        None \<Rightarrow> (False, db)
      | Some (h, n) \<Rightarrow>
          if find_raises flt then (False, db)
          else (case find_one lib (machine_ids_collection db) (JStr machine_id) of
                  Some existing \<Rightarrow>
                    if update_raises flt then (False, db)
                    else (True, db\<lparr>machine_ids_collection :=
                            update_one (matches lib (JStr machine_id))
                              (\<lambda>r. r\<lparr>mr_machine_id := machine_id, mr_hostname := h,
                                      mr_os_name := n, mr_last_seen := now,
                                      mr_status := ''active''\<rparr>)
                              (machine_ids_collection db)\<rparr>)
                | None \<Rightarrow>
                    if insert_raises flt then (False, db)
                    else (True, db\<lparr>machine_ids_collection :=
                            machine_ids_collection db @
                              [\<lparr>mr_machine_id = machine_id, mr_hostname = h, mr_os_name = n,
                                mr_last_seen = now, mr_status = ''active'',
                                mr_first_seen = now\<rparr>]\<rparr>)))"

definition save_static_data ::
  "faults \<Rightarrow> nat \<Rightarrow> database \<Rightarrow> string \<Rightarrow> json \<Rightarrow> bool \<times> database" where
  "save_static_data flt now db machine_id data =
     (case get_fields static_doc_spec data of
        None \<Rightarrow> (False, db)
      | Some flds \<Rightarrow>
          if update_raises flt then (False, db)
          else (True, db\<lparr>static_collection :=
                  upsert_one (\<lambda>d. sd_machine_id d = machine_id)
                    \<lparr>sd_machine_id = machine_id, sd_timestamp = now, sd_fields = flds\<rparr>
                    (static_collection db)\<rparr>))"

text \<open>
  \<^verbatim>\<open>save_variable_data\<close>: the sample is inserted first, then \<^verbatim>\<open>last_seen\<close> of the
  registry entry is set; when the second call raises the sample stays inserted and the
  function returns \<^verbatim>\<open>False\<close>.
\<close>

definition save_variable_data ::
  "pylib \<Rightarrow> faults \<Rightarrow> nat \<Rightarrow> database \<Rightarrow> json \<Rightarrow> json \<Rightarrow> bool \<times> database" where
  "save_variable_data lib flt now db machine_id data =
     (case get_fields variable_doc_spec data of
        None \<Rightarrow> (False, db)
      | Some flds \<Rightarrow>
          if insert_raises flt then (False, db)
          else
            let db1 = db\<lparr>variable_collection := variable_collection db @
                        [\<lparr>vd_machine_id = machine_id, vd_timestamp = now, vd_fields = flds\<rparr>]\<rparr>
            in if update_raises flt then (False, db1)
               else (True, db1\<lparr>machine_ids_collection :=
                       update_one (matches lib machine_id)
                         (\<lambda>r. r\<lparr>mr_last_seen := now\<rparr>)
                         (machine_ids_collection db1)\<rparr>))"

section \<open>The collector: dispatch of one envelope\<close>

datatype py_exc = AttributeError | TypeError | ValidationError | GatewayError

text \<open>The \<^verbatim>\<open>message\<close> of a response: a literal of the source, or \<^verbatim>\<open>str(e)\<close>.\<close>

datatype message = Msg string | StrOf py_exc

record reply =
  status :: string
  message :: message
  reply_machine_id :: "string option"

definition error_reply :: "message \<Rightarrow> reply" where
  "error_reply m = \<lparr>status = ''error'', message = m, reply_machine_id = None\<rparr>"

definition bind_exc :: "'e + 'a \<Rightarrow> ('a \<Rightarrow> 'e + 'b) \<Rightarrow> 'e + 'b" where
  "bind_exc m f = (case m of Inl e \<Rightarrow> Inl e | Inr v \<Rightarrow> f v)"

definition get_exc :: "json \<Rightarrow> string \<Rightarrow> json \<Rightarrow> py_exc + json" where
  "get_exc d k dflt = (case dict_get d k dflt of None \<Rightarrow> Inl AttributeError | Some v \<Rightarrow> Inr v)"

text \<open>
  \<^verbatim>\<open>k in v\<close>: a key of a dictionary, an element of a list, a substring of a string;
  \<^verbatim>\<open>TypeError\<close> on \<^verbatim>\<open>None\<close>, a boolean or a number.
\<close>

fun py_in :: "string \<Rightarrow> json \<Rightarrow> py_exc + bool" where
  "py_in k (JObj kvs) = Inr (k \<in> set (map fst kvs))"
| "py_in k (JArr xs) = Inr (JStr k \<in> set xs)"
| "py_in k (JStr s) = Inr (sublist k s)"
| "py_in k _ = Inl TypeError"

text \<open>
  \<^verbatim>\<open>StaticData(**content)\<close>: unpacking needs a mapping; pydantic then validates the
  dictionary.
\<close>

definition StaticData :: "pylib \<Rightarrow> json \<Rightarrow> py_exc + unit" where
  "StaticData lib content =
     (case content of
        JObj kvs \<Rightarrow> if StaticData_valid lib content then Inr () else Inl ValidationError
      | _ \<Rightarrow> Inl TypeError)"

text \<open>The body of the \<^verbatim>\<open>try\<close> block of \<^verbatim>\<open>process_data\<close>.\<close>

definition process_data_try ::
  "pylib \<Rightarrow> faults \<Rightarrow> nat \<Rightarrow> database \<Rightarrow> json \<Rightarrow> py_exc + (reply \<times> database)" where
  "process_data_try lib flt now db data =
     bind_exc (get_exc data ''version'' JNull) (\<lambda>version.
       if version \<noteq> JStr ''1.0'' then Inr (error_reply (Msg ''Invalid data version''), db)
       else
     bind_exc (get_exc data ''content'' JNull) (\<lambda>content.
     bind_exc (py_in ''os'' content) (\<lambda>is_static.
       if is_static then
         bind_exc (StaticData lib content) (\<lambda>_.
           case generate_machine_id lib content of
             None \<Rightarrow> Inr (error_reply (Msg ''Failed to register machine''), db)
           | Some machine_id \<Rightarrow>
               if machine_id = [] then Inr (error_reply (Msg ''Failed to register machine''), db)
               else (case register_machine lib flt now db machine_id content of
                       (False, db1) \<Rightarrow> Inr (error_reply (Msg ''Failed to register machine''), db1)
                     | (True, db1) \<Rightarrow>
                         (case save_static_data flt now db1 machine_id content of
                            (False, db2) \<Rightarrow>
                              Inr (error_reply (Msg ''Failed to save static data''), db2)
                          | (True, db2) \<Rightarrow>
                              Inr (\<lparr>status = ''success'', message = Msg ''Static data registered'',
                                    reply_machine_id = Some machine_id\<rparr>, db2))))
       else
     bind_exc (py_in ''machine_id'' data) (\<lambda>has_id.
       if has_id then
         bind_exc (get_exc data ''machine_id'' JNull) (\<lambda>machine_id.
           if find_raises flt then Inl GatewayError
           else if find_one lib (machine_ids_collection db) machine_id = None
           then Inr (error_reply (Msg ''RESEND_STATIC_DATA''), db)
           else (case save_variable_data lib flt now db machine_id content of
                   (False, db1) \<Rightarrow> Inr (error_reply (Msg ''Failed to save variable data''), db1)
                 | (True, db1) \<Rightarrow>
                     Inr (\<lparr>status = ''success'', message = Msg ''Variable data saved'',
                           reply_machine_id = None\<rparr>, db1)))
       else Inr (error_reply (Msg ''Invalid data format''), db)))))"

text \<open>
  \<^verbatim>\<open>process_data\<close> with its handlers: a \<^verbatim>\<open>ValidationError\<close> answers
  \<^verbatim>\<open>Invalid data format\<close>, any other exception answers its own text. Every raise of the
  body precedes the first write, so the database is the one the call started with.
\<close>

definition process_data ::
  "pylib \<Rightarrow> faults \<Rightarrow> nat \<Rightarrow> database \<Rightarrow> json \<Rightarrow> reply \<times> database" where
  "process_data lib flt now db data =
     (case process_data_try lib flt now db data of
        Inr r \<Rightarrow> r
      | Inl ValidationError \<Rightarrow> (error_reply (Msg ''Invalid data format''), db)
      | Inl e \<Rightarrow> (error_reply (StrOf e), db))"

text \<open>The collector over a sequence of envelopes, each with its clock reading and faults.\<close>

fun serve :: "pylib \<Rightarrow> database \<Rightarrow> (faults \<times> nat \<times> json) list \<Rightarrow> database" where
  "serve lib db [] = db"
| "serve lib db ((flt, now, data) # rest) = serve lib (snd (process_data lib flt now db data)) rest"

text \<open>The identities of the registry, as the values an envelope can carry.\<close>

definition registered_ids :: "database \<Rightarrow> json list" where
  "registered_ids db = map (\<lambda>r. JStr (mr_machine_id r)) (machine_ids_collection db)"

text \<open>Every stored sample carries an identity that the registry holds.\<close>

definition samples_registered :: "database \<Rightarrow> bool" where
  "samples_registered db =
     list_all (\<lambda>d. vd_machine_id d \<in> set (registered_ids db)) (variable_collection db)"

text \<open>
  An identity as the agent sends it: a string, or \<^verbatim>\<open>None\<close> as long as the agent has
  none. An envelope is plain when its \<^verbatim>\<open>machine_id\<close>, if it has one, is of that kind.
\<close>

fun str_or_none :: "json \<Rightarrow> bool" where
  "str_or_none (JStr s) = True"
| "str_or_none JNull = True"
| "str_or_none _ = False"

definition plain_envelope :: "json \<Rightarrow> bool" where
  "plain_envelope data =
     (case dict_get data ''machine_id'' JNull of Some v \<Rightarrow> str_or_none v | None \<Rightarrow> True)"

text \<open>A registry with one machine.\<close>

definition one_machine :: database where
  "one_machine =
     \<lparr>machine_ids_collection =
        [\<lparr>mr_machine_id = ''0123456789abcdef0123456789abcdef'', mr_hostname = JStr ''poste-12'',
          mr_os_name = JStr ''Linux'', mr_last_seen = 100, mr_status = ''active'',
          mr_first_seen = 100\<rparr>],
      static_collection = [], variable_collection = []\<rparr>"

text \<open>
  Envelopes of the agent for a sample file: of the registered machine, of a machine the
  registry does not hold, the same with an older protocol version, and one whose
  \<^verbatim>\<open>machine_id\<close> is the dictionary \<^verbatim>\<open>{"$ne": ""}\<close>.
\<close>

definition sample_envelope :: json where
  "sample_envelope = JObj
     [(''version'', JStr ''1.0''),
      (''filename'', JStr ''2.json.gz''),
      (''content'', JObj [(''timestamp'', JStr ''2024-05-01 10:00:02''),
                          (''cpu'', JObj [(''global_utilise'', JInt 12)])]),
      (''machine_id'', JStr ''0123456789abcdef0123456789abcdef''),
      (''timestamp'', JStr ''2024-05-01 10:00:30'')]"

definition unknown_envelope :: json where
  "unknown_envelope = JObj
     [(''version'', JStr ''1.0''),
      (''filename'', JStr ''2.json.gz''),
      (''content'', JObj [(''timestamp'', JStr ''2024-05-01 10:00:02''),
                          (''cpu'', JObj [(''global_utilise'', JInt 12)])]),
      (''machine_id'', JStr ''fedcba9876543210fedcba9876543210''),
      (''timestamp'', JStr ''2024-05-01 10:00:30'')]"

definition old_version_envelope :: json where
  "old_version_envelope = JObj
     [(''version'', JStr ''0.9''),
      (''filename'', JStr ''2.json.gz''),
      (''content'', JObj [(''timestamp'', JStr ''2024-05-01 10:00:02''),
                          (''cpu'', JObj [(''global_utilise'', JInt 12)])]),
      (''machine_id'', JStr ''0123456789abcdef0123456789abcdef''),
      (''timestamp'', JStr ''2024-05-01 10:00:30'')]"

definition operator_envelope :: json where
  "operator_envelope = JObj
     [(''version'', JStr ''1.0''),
      (''filename'', JStr ''2.json.gz''),
      (''content'', JObj [(''timestamp'', JStr ''2024-05-01 10:00:02''),
                          (''cpu'', JObj [(''global_utilise'', JInt 12)])]),
      (''machine_id'', JObj [(''$ne'', JStr [])]),
      (''timestamp'', JStr ''2024-05-01 10:00:30'')]"

text \<open>
  Two snapshots of one machine, taken at different times. They differ in fields at the
  top (\<^verbatim>\<open>timestamp\<close>, \<^verbatim>\<open>adresse_mac\<close>, \<^verbatim>\<open>disque\<close>, \<^verbatim>\<open>gpu\<close>, \<^verbatim>\<open>peripheriques_usb\<close>)
  and in fields next to the ones the fingerprint reads: the current frequency and the
  number of physical cores in \<^verbatim>\<open>cpu\<close>, the available and used memory in
  \<^verbatim>\<open>memoire.ram\<close>, the architecture in \<^verbatim>\<open>os\<close>, the date of the BIOS, the terminal of the
  first user and the second user.
\<close>

definition snapshot_morning :: json where
  "snapshot_morning = JObj
     [(''timestamp'', JStr ''2024-05-01 08:00:00''),
      (''os'', JObj [(''nom'', JStr ''Linux''), (''version'', JStr ''#1 SMP''),
                     (''release'', JStr ''6.1.0''), (''architecture'', JStr ''x86_64''),
                     (''hostname'', JStr ''poste-12'')]),
      (''cpu'', JObj [(''type'', JStr ''x86_64''), (''coeurs_physiques'', JInt 4),
                      (''coeurs_logiques'', JInt 8),
                      (''frequence'', JObj [(''actuelle'', JInt 1200), (''min'', JInt 800),
                                            (''max'', JInt 3600)])]),
      (''memoire'', JObj [(''ram'', JObj [(''total'', JStr ''15.52 GB''),
                                          (''disponible'', JStr ''9.80 GB''),
                                          (''utilisee'', JStr ''5.10 GB''),
                                          (''pourcentage_utilise'', JInt 36)])]),
      (''disque'', JObj [(''pourcentage_utilise'', JInt 41)]),
      (''adresse_mac'', JStr ''00:1a:2b:3c:4d:5e''),
      (''gpu'', JObj [(''Disponible'', JBool False)]),
      (''bios_carte_mere'', JObj [(''BIOS'', JObj [(''Fabricant'', JStr ''LENOVO''),
                                                   (''Version'', JStr ''N2HET''),
                                                   (''Date'', JStr ''01/01/2022'')])]),
      (''utilisateurs_connectes'', JArr [JObj [(''username'', JStr ''delibes''),
                                               (''terminal'', JStr ''tty2'')]]),
      (''peripheriques_usb'', JArr [])]"

definition snapshot_evening :: json where
  "snapshot_evening = JObj
     [(''timestamp'', JStr ''2024-05-01 19:30:00''),
      (''os'', JObj [(''nom'', JStr ''Linux''), (''version'', JStr ''#1 SMP''),
                     (''release'', JStr ''6.1.0''), (''architecture'', JStr ''amd64''),
                     (''hostname'', JStr ''poste-12'')]),
      (''cpu'', JObj [(''type'', JStr ''x86_64''), (''coeurs_physiques'', JInt 2),
                      (''coeurs_logiques'', JInt 8),
                      (''frequence'', JObj [(''actuelle'', JInt 3400), (''min'', JInt 800),
                                            (''max'', JInt 3600)])]),
      (''memoire'', JObj [(''ram'', JObj [(''total'', JStr ''15.52 GB''),
                                          (''disponible'', JStr ''2.15 GB''),
                                          (''utilisee'', JStr ''12.90 GB''),
                                          (''pourcentage_utilise'', JInt 86)])]),
      (''disque'', JObj [(''pourcentage_utilise'', JInt 57)]),
      (''adresse_mac'', JStr ''02:42:ac:11:00:02''),
      (''gpu'', JObj [(''Disponible'', JBool True), (''Nom'', JStr ''GTX'')]),
      (''bios_carte_mere'', JObj [(''BIOS'', JObj [(''Fabricant'', JStr ''LENOVO''),
                                                   (''Version'', JStr ''N2HET''),
                                                   (''Date'', JStr ''15/03/2023'')])]),
      (''utilisateurs_connectes'', JArr [JObj [(''username'', JStr ''delibes''),
                                               (''terminal'', JStr ''pts/0'')],
                                         JObj [(''username'', JStr ''root'')]]),
      (''peripheriques_usb'', JArr [JObj [(''Description'', JStr ''Bus 001 Device 002'')]])]"

section \<open>The collector: admission of connections\<close>

text \<open>
  \<^verbatim>\<open>start_server\<close> accepts a connection and hands it to
  \<^verbatim>\<open>ThreadPoolExecutor(max_workers=MAX_CONCURRENT_CONNECTIONS)\<close> with \<^verbatim>\<open>executor.submit\<close>:
  the call \<^verbatim>\<open>handle_client(client_socket, client_address)\<close> waits in the executor's queue
  until one of at most \<^verbatim>\<open>max_workers\<close> threads is free to run it. While it runs, the
  call is in one of these phases:
  \<^item> \<open>Started\<close>: picked by a thread, before the \<^verbatim>\<open>with self.lock\<close> block at its start;
  \<^item> \<open>Admitted\<close>: the block has incremented \<^verbatim>\<open>active_connections\<close> and found it within
    the limit; the call reads frames;
  \<^item> \<open>Refused\<close>: the block has incremented the counter, found it above the limit, sent
    \<^verbatim>\<open>Too many connections\<close> and returned into \<^verbatim>\<open>finally\<close>;
  \<^item> \<open>Hungup\<close>: the read loop of an admitted call has ended (the peer closed, or an
    exception), \<^verbatim>\<open>finally\<close> is next;
  \<^item> \<open>Finished\<close>: \<^verbatim>\<open>finally\<close> has closed the socket and decremented the counter; the
    thread has not yet returned to the executor.
  Connections are numbers. The state holds the counter, the executor's queue, the calls
  that threads are running, and the connections that were refused and closed so far.
\<close>

definition MAX_CONCURRENT_CONNECTIONS :: nat where
  "MAX_CONCURRENT_CONNECTIONS = 50"

datatype phase = Started | Admitted | Refused | Hungup | Finished

record server =
  active_connections :: int
  work_queue :: "nat list"
  workers :: "(nat \<times> phase) list"
  refused :: "nat list"
  closed :: "nat list"

definition initial_server :: server where
  "initial_server =
     \<lparr>active_connections = 0, work_queue = [], workers = [], refused = [], closed = []\<rparr>"

text \<open>
  The steps, each atomic (the counter is only touched under the lock): a connection is
  accepted and submitted; a free thread picks the head of the queue; a started call runs
  its first locked block; an admitted call's read loop ends; \<^verbatim>\<open>finally\<close> runs; the call
  returns and frees its thread. A step that is not possible in a state leaves it as it is,
  so every list of steps is a schedule.
\<close>

datatype event = Accept nat | Pick | Enter nat | Hangup nat | Cleanup nat | Return nat

fun set_phase :: "nat \<Rightarrow> phase list \<Rightarrow> phase \<Rightarrow> (nat \<times> phase) list \<Rightarrow> (nat \<times> phase) list" where
  "set_phase c ps p' [] = []"
| "set_phase c ps p' ((d, p) # ws) =
     (if d = c \<and> p \<in> set ps then (d, p') # ws else (d, p) # set_phase c ps p' ws)"

definition in_phase :: "nat \<Rightarrow> phase list \<Rightarrow> (nat \<times> phase) list \<Rightarrow> bool" where
  "in_phase c ps ws = list_ex (\<lambda>(d, p). d = c \<and> p \<in> set ps) ws"

fun remove_finished :: "nat \<Rightarrow> (nat \<times> phase) list \<Rightarrow> (nat \<times> phase) list" where
  "remove_finished c [] = []"
| "remove_finished c ((d, p) # ws) =
     (if d = c \<and> p = Finished then ws else (d, p) # remove_finished c ws)"

text \<open>One step of the accept loop, the executor or a call of \<^verbatim>\<open>handle_client\<close>.\<close>

fun pool_step :: "event \<Rightarrow> server \<Rightarrow> server" where
  "pool_step (Accept c) s = s\<lparr>work_queue := work_queue s @ [c]\<rparr>"
| "pool_step Pick s =
     (case work_queue s of
        [] \<Rightarrow> s
      | c # q \<Rightarrow>
          if length (workers s) < MAX_CONCURRENT_CONNECTIONS
          then s\<lparr>work_queue := q, workers := workers s @ [(c, Started)]\<rparr>
          else s)"
| "pool_step (Enter c) s =
     (if in_phase c [Started] (workers s) then
        let n = active_connections s + 1 in
        if n > int MAX_CONCURRENT_CONNECTIONS
        then s\<lparr>active_connections := n, workers := set_phase c [Started] Refused (workers s),
               refused := refused s @ [c]\<rparr>
        else s\<lparr>active_connections := n, workers := set_phase c [Started] Admitted (workers s)\<rparr>
      else s)"
| "pool_step (Hangup c) s =
     (if in_phase c [Admitted] (workers s)
      then s\<lparr>workers := set_phase c [Admitted] Hungup (workers s)\<rparr> else s)"
| "pool_step (Cleanup c) s =
     (if in_phase c [Refused, Hungup] (workers s)
      then s\<lparr>active_connections := active_connections s - 1,
             workers := set_phase c [Refused, Hungup] Finished (workers s),
             closed := closed s @ [c]\<rparr>
      else s)"
| "pool_step (Return c) s = s\<lparr>workers := remove_finished c (workers s)\<rparr>"

fun pool_run :: "event list \<Rightarrow> server \<Rightarrow> server" where
  "pool_run [] s = s"
| "pool_run (e # es) s = pool_run es (pool_step e s)"

text \<open>The calls that have incremented the counter and not yet decremented it.\<close>

fun holds_slot :: "phase \<Rightarrow> bool" where
  "holds_slot Admitted = True"
| "holds_slot Refused = True"
| "holds_slot Hungup = True"
| "holds_slot Started = False"
| "holds_slot Finished = False"

definition counted :: "(nat \<times> phase) list \<Rightarrow> nat" where
  "counted ws = length (filter (\<lambda>(d, p). holds_slot p) ws)"

definition admission_inv :: "server \<Rightarrow> bool" where
  "admission_inv s \<longleftrightarrow>
     length (workers s) \<le> MAX_CONCURRENT_CONNECTIONS \<and>
     active_connections s = int (counted (workers s)) \<and>
     refused s = []"

text \<open>
  Fifty-one connections arrive together; the executor starts as many calls as it has
  threads, and every started call runs its first block.
\<close>

definition burst :: "event list" where
  "burst = map Accept [1..<52] @ replicate 51 Pick @ map Enter [1..<52]"

section \<open>The agent: spool directory and sequence counter\<close>

text \<open>
  \<^verbatim>\<open>DATA_DIR\<close>: the names of the files in it, in the order \<^verbatim>\<open>os.listdir\<close> gives them,
  each with its size in bytes. Names stand for paths below \<^verbatim>\<open>DATA_DIR\<close>. These are the
  operations when they succeed; where the agent calls them, their failure is a branch of
  the caller.
\<close>

type_synonym directory = "(string \<times> nat) list"

definition listdir :: "directory \<Rightarrow> string list" where
  "listdir d = map fst d"

definition path_exists :: "directory \<Rightarrow> string \<Rightarrow> bool" where
  "path_exists d f = (f \<in> set (listdir d))"

definition os_remove :: "string \<Rightarrow> directory \<Rightarrow> directory" where
  "os_remove f d = filter (\<lambda>(g, z). g \<noteq> f) d"

definition write_file :: "string \<Rightarrow> nat \<Rightarrow> directory \<Rightarrow> directory" where
  "write_file f z d = os_remove f d @ [(f, z)]"

definition endswith :: "string \<Rightarrow> string \<Rightarrow> bool" where
  "endswith f sfx = suffix sfx f"

text \<open>\<^verbatim>\<open>f"{file_counter}.json.gz"\<close>: the counter in decimal, then the extension.\<close>

definition digit :: "nat \<Rightarrow> char" where
  "digit d = char_of (48 + d)"

fun str_nat :: "nat \<Rightarrow> string" where
  "str_nat n = (if n < 10 then [digit n] else str_nat (n div 10) @ [digit (n mod 10)])"

definition spool_name :: "nat \<Rightarrow> string" where
  "spool_name n = str_nat n @ ''.json.gz''"

text \<open>Reading a decimal numeral back, to see that distinct counters give distinct names.\<close>

definition digits_value :: "string \<Rightarrow> nat" where
  "digits_value s = foldl (\<lambda>a c. 10 * a + (of_char c - 48)) 0 s"

lemma digits_value_snoc: "digits_value (s @ [c]) = 10 * digits_value s + (of_char c - 48)"
  by (simp add: digits_value_def)

lemma of_char_digit: "d < 10 \<Longrightarrow> of_char (digit d) = 48 + d"
  by (simp add: digit_def)

declare str_nat.simps [simp del]

lemma digits_value_str_nat: "digits_value (str_nat n) = n"
proof (induction n rule: str_nat.induct)
  case (1 n)
  show ?case
  proof (cases "n < 10")
    case True
    then show ?thesis
      by (subst str_nat.simps) (simp add: digits_value_def of_char_digit)
  next
    case False
    have "digits_value (str_nat n) = digits_value (str_nat (n div 10) @ [digit (n mod 10)])"
      using False by (subst str_nat.simps) simp
    also have "\<dots> = 10 * (n div 10) + n mod 10"
      using 1 False by (simp add: digits_value_snoc of_char_digit)
    finally show ?thesis by simp
  qed
qed

lemma inj_spool_name: "inj spool_name"
proof (rule injI)
  fix a b
  assume "spool_name a = spool_name b"
  then have "str_nat a = str_nat b" by (simp add: spool_name_def)
  then have "digits_value (str_nat a) = digits_value (str_nat b)" by simp
  then show "a = b" by (simp add: digits_value_str_nat)
qed

lemma finite_spool_numbers: "finite {n. spool_name n \<in> set names}"
proof -
  have "{n. spool_name n \<in> set names} = spool_name -` set names" by auto
  then show ?thesis by (simp add: finite_vimageI inj_spool_name)
qed

text \<open>
  The loop of \<^verbatim>\<open>get_next_filename\<close> and \<^verbatim>\<open>reset_file_counter\<close>:
  \<^verbatim>\<open>while os.path.exists(f"{DATA_DIR}/{file_counter}.json.gz"): file_counter += 1\<close>.
\<close>

function first_free :: "string list \<Rightarrow> nat \<Rightarrow> nat" where
  "first_free names c = (if spool_name c \<in> set names then first_free names (Suc c) else c)"
  by pat_completeness auto

termination
proof (relation "measure (\<lambda>(names, c). card {n. c \<le> n \<and> spool_name n \<in> set names})")
  show "wf (measure (\<lambda>(names, c). card {n. c \<le> n \<and> spool_name n \<in> set names}))"
    by simp
next
  fix names c
  assume here: "spool_name c \<in> set names"
  have fin: "finite {n. c \<le> n \<and> spool_name n \<in> set names}"
    by (rule finite_subset [OF _ finite_spool_numbers [of names]]) auto
  have "c \<in> {n. c \<le> n \<and> spool_name n \<in> set names}"
    and "c \<notin> {n. Suc c \<le> n \<and> spool_name n \<in> set names}"
    and "{n. Suc c \<le> n \<and> spool_name n \<in> set names} \<subseteq> {n. c \<le> n \<and> spool_name n \<in> set names}"
    using here by auto
  then have "{n. Suc c \<le> n \<and> spool_name n \<in> set names} \<subset> {n. c \<le> n \<and> spool_name n \<in> set names}"
    by blast
  then have "card {n. Suc c \<le> n \<and> spool_name n \<in> set names}
           < card {n. c \<le> n \<and> spool_name n \<in> set names}"
    by (rule psubset_card_mono [OF fin])
  then show "((names, Suc c), (names, c))
      \<in> measure (\<lambda>(names, c). card {n. c \<le> n \<and> spool_name n \<in> set names})"
    by simp
qed

section \<open>The agent: state\<close>

text \<open>
  What one iteration of the send loop meets between opening the spool file and parsing
  what \<^verbatim>\<open>recv\<close> returns: the file does not open or parse (any exception of the generic
  handler raised before the envelope is sent), the connection is reset or the pipe broken,
  some other exception (\<^verbatim>\<open>socket.timeout\<close>, which the generic handler catches, or bytes
  that are not one JSON value), or a response. A response is a JSON object whose
  \<^verbatim>\<open>status\<close>, \<^verbatim>\<open>message\<close> and \<^verbatim>\<open>machine_id\<close>, when present, are strings, as the
  collector builds it. Which envelope a response answers is not part of it: the agent
  takes what it reads for the answer to the file it has just sent.
\<close>

record response =
  r_status :: "string option"
  r_message :: "string option"
  r_machine_id :: "string option"

datatype outcome = ReadError | ConnectionError | OtherError | Response response

text \<open>
  What \<^verbatim>\<open>with open(ID_FILE, 'w') as f: f.write(machine_id)\<close> does: it writes the
  file, or \<^verbatim>\<open>open\<close> raises and the file is left as it was, or the write raises after
  \<^verbatim>\<open>open\<close> has emptied the file.
\<close>

datatype id_write = Writes | Open_fails | Write_fails

text \<open>
  The module globals \<^verbatim>\<open>file_counter\<close> and \<^verbatim>\<open>initial_data_saved\<close>; the two places on disk:
  \<^verbatim>\<open>DATA_DIR\<close>, and \<^verbatim>\<open>ID_FILE\<close> with its bytes (\<open>None\<close> when there is no such
  file); how the disk behaves: whether \<^verbatim>\<open>ID_FILE\<close> can be opened and decoded, what a
  write to it does, and the spool files for which \<^verbatim>\<open>os.remove\<close> raises; and a record of
  what happened: every exchange of the send loop (file name, outcome) and the number of
  batch pauses.
\<close>

record agent =
  data_dir :: directory
  id_file :: "string option"
  id_readable :: bool
  id_write :: id_write
  undeletable :: "string list"
  file_counter :: nat
  initial_data_saved :: bool
  exchanges :: "(string \<times> outcome) list"
  pauses :: nat

definition STORAGE_LIMIT :: nat where
  "STORAGE_LIMIT = 200 * 1024 * 1024"

definition FILES_PER_BATCH :: nat where
  "FILES_PER_BATCH = 5"

definition SEND_INTERVAL :: real where
  "SEND_INTERVAL = 30"

text \<open>
  The characters for which \<^verbatim>\<open>str.isspace\<close> holds, each with its bytes in UTF-8:
  U+0009 to U+000D, U+001C to U+0020, U+0085, U+00A0, U+1680, U+2000 to U+200A, U+2028,
  U+2029, U+202F, U+205F and U+3000.
\<close>

definition whitespace :: "string list" where
  "whitespace =
     map (\<lambda>c. [c]) [CHR 0x09, CHR 0x0A, CHR 0x0B, CHR 0x0C, CHR 0x0D,
                    CHR 0x1C, CHR 0x1D, CHR 0x1E, CHR 0x1F, CHR 0x20]
     @ [[CHR 0xC2, CHR 0x85], [CHR 0xC2, CHR 0xA0], [CHR 0xE1, CHR 0x9A, CHR 0x80]]
     @ map (\<lambda>c. [CHR 0xE2, CHR 0x80, c])
         [CHR 0x80, CHR 0x81, CHR 0x82, CHR 0x83, CHR 0x84, CHR 0x85, CHR 0x86, CHR 0x87,
          CHR 0x88, CHR 0x89, CHR 0x8A, CHR 0xA8, CHR 0xA9, CHR 0xAF]
     @ [[CHR 0xE2, CHR 0x81, CHR 0x9F], [CHR 0xE3, CHR 0x80, CHR 0x80]]"

lemma whitespace_nonempty: "w \<in> set whitespace \<Longrightarrow> 0 < length w"
  by (auto simp: whitespace_def)

text \<open>\<^verbatim>\<open>str.lstrip()\<close> and \<^verbatim>\<open>str.rstrip()\<close>: white space goes from one end.\<close>

function lstrip :: "string \<Rightarrow> string" where
  "lstrip s =
     (case find (\<lambda>w. prefix w s) whitespace of
        Some w \<Rightarrow> lstrip (drop (length w) s)
      | None \<Rightarrow> s)"
  by pat_completeness auto

termination
proof (relation "measure length")
  show "wf (measure (length :: string \<Rightarrow> nat))" by simp
next
  fix s w :: string
  assume "find (\<lambda>w. prefix w s) whitespace = Some w"
  then have "w \<in> set whitespace" and "prefix w s"
    by (auto simp: find_Some_iff)
  then have "0 < length w" and "length w \<le> length s"
    by (simp_all only: whitespace_nonempty prefix_length_le)
  then have "length s - length w < length s" by linarith
  then show "(drop (length w) s, s) \<in> measure length" by simp
qed

function rstrip :: "string \<Rightarrow> string" where
  "rstrip s =
     (case find (\<lambda>w. suffix w s) whitespace of
        Some w \<Rightarrow> rstrip (take (length s - length w) s)
      | None \<Rightarrow> s)"
  by pat_completeness auto

termination
proof (relation "measure length")
  show "wf (measure (length :: string \<Rightarrow> nat))" by simp
next
  fix s w :: string
  assume "find (\<lambda>w. suffix w s) whitespace = Some w"
  then have "w \<in> set whitespace" and "suffix w s"
    by (auto simp: find_Some_iff)
  then have "0 < length w" and "length w \<le> length s"
    by (simp_all only: whitespace_nonempty suffix_length_le)
  then have "length s - length w < length s" by linarith
  then show "(take (length s - length w) s, s) \<in> measure length" by simp
qed

declare lstrip.simps [simp del] rstrip.simps [simp del]

definition strip :: "string \<Rightarrow> string" where
  "strip s = rstrip (lstrip s)"

text \<open>
  Reading in text mode: a carriage return, with the line feed that follows it if there is
  one, comes out as one line feed. The flag tells whether the byte before was a carriage
  return.
\<close>

fun universal_newlines :: "bool \<Rightarrow> string \<Rightarrow> string" where
  "universal_newlines after_cr [] = []"
| "universal_newlines after_cr (c # s) =
     (if c = CHR 0x0D then CHR 0x0A # universal_newlines True s
      else if c = CHR 0x0A \<and> after_cr then universal_newlines False s
      else c # universal_newlines False s)"

text \<open>
  \<^verbatim>\<open>get_machine_id\<close>: \<^verbatim>\<open>None\<close> when there is no file and when opening or decoding it
  raises.
\<close>

definition get_machine_id :: "agent \<Rightarrow> string option" where
  "get_machine_id a =
     (if id_readable a then map_option (\<lambda>s. strip (universal_newlines False s)) (id_file a)
      else None)"

text \<open>\<^verbatim>\<open>save_machine_id\<close>: an exception is logged and the function returns.\<close>

definition save_machine_id :: "string \<Rightarrow> agent \<Rightarrow> agent" where
  "save_machine_id machine_id a =
     (case id_write a of
        Writes \<Rightarrow> a\<lparr>id_file := Some machine_id\<rparr>
      | Open_fails \<Rightarrow> a
      | Write_fails \<Rightarrow> a\<lparr>id_file := Some []\<rparr>)"

text \<open>Truth value of an optional string: \<^verbatim>\<open>None\<close> and the empty string are false.\<close>

definition is_set :: "string option \<Rightarrow> bool" where
  "is_set m = (case m of None \<Rightarrow> False | Some s \<Rightarrow> s \<noteq> [])"

definition reset_file_counter :: "agent \<Rightarrow> agent" where
  "reset_file_counter a = a\<lparr>file_counter := first_free (listdir (data_dir a)) 1\<rparr>"

definition get_next_filename :: "agent \<Rightarrow> string \<times> agent" where
  "get_next_filename a =
     (let c = first_free (listdir (data_dir a)) (file_counter a)
      in (spool_name c, a\<lparr>file_counter := c\<rparr>))"

definition initialize_data_collection :: "agent \<Rightarrow> agent" where
  "initialize_data_collection a =
     reset_file_counter (a\<lparr>initial_data_saved := path_exists (data_dir a) ''1.json.gz''\<rparr>)"

text \<open>\<^verbatim>\<open>save_initial_data\<close>; \<open>z\<close> is the size of the compressed snapshot.\<close>

definition save_initial_data :: "nat \<Rightarrow> agent \<Rightarrow> agent" where
  "save_initial_data z a =
     (if initial_data_saved a \<or> path_exists (data_dir a) ''1.json.gz'' then a
      else a\<lparr>data_dir := write_file ''1.json.gz'' z (data_dir a), initial_data_saved := True\<rparr>)"

text \<open>\<^verbatim>\<open>save_variable_data_to_file\<close>; \<open>z\<close> is the size of the compressed sample.\<close>

definition save_variable_data_to_file :: "nat \<Rightarrow> agent \<Rightarrow> agent" where
  "save_variable_data_to_file z a =
     (case get_next_filename a of
        (filename, a1) \<Rightarrow> a1\<lparr>data_dir := write_file filename z (data_dir a1)\<rparr>)"

definition get_data_directory_size :: "agent \<Rightarrow> nat" where
  "get_data_directory_size a =
     sum_list (map snd (filter (\<lambda>(f, z). endswith f ''.json.gz'') (data_dir a)))"

definition is_storage_limit_reached :: "agent \<Rightarrow> bool" where
  "is_storage_limit_reached a = (get_data_directory_size a \<ge> STORAGE_LIMIT)"

section \<open>The agent: send cycle\<close>

text \<open>
  Lines 553 to 561 of \<^verbatim>\<open>send_files_to_server\<close>: the list of files to send.
  \<^verbatim>\<open>sorted\<close> compares the names as strings.
\<close>

definition pending_files :: "directory \<Rightarrow> string option \<Rightarrow> string list" where
  "pending_files d machine_id =
     (let json_files = sort (filter (\<lambda>f. endswith f ''.json.gz'') (listdir d))
      in if ''1.json.gz'' \<in> set json_files \<and> \<not> is_set machine_id
         then ''1.json.gz'' # filter (\<lambda>f. f \<noteq> ''1.json.gz'') json_files
         else json_files)"

text \<open>The locals of the send loop next to the agent's state.\<close>

record sender =
  host :: agent
  json_files :: "string list"
  machine_id :: "string option"

datatype 'a loop = Next 'a | Break 'a

definition on_host :: "(agent \<Rightarrow> agent) \<Rightarrow> sender \<Rightarrow> sender" where
  "on_host f st = st\<lparr>host := f (host st)\<rparr>"

text \<open>The pause after every \<^verbatim>\<open>FILES_PER_BATCH\<close> files (lines 600 to 602).\<close>

definition batch_pause :: "nat \<Rightarrow> sender \<Rightarrow> sender" where
  "batch_pause i st =
     (if (i + 1) mod FILES_PER_BATCH = 0 then on_host (\<lambda>a. a\<lparr>pauses := pauses a + 1\<rparr>) st else st)"

text \<open>
  One iteration of \<^verbatim>\<open>for i, json_file in enumerate(json_files)\<close>, at index \<open>i\<close> (the
  counter of \<^verbatim>\<open>enumerate\<close> and the position of the list iterator are the same number).
  A file that is no longer in the directory fails to open. \<^verbatim>\<open>continue\<close> after the
  insertion skips the batch pause. When \<^verbatim>\<open>os.remove\<close> raises, the generic handler logs
  it: the file stays, the identity that was just saved stays saved, the batch pause is
  skipped and the loop goes on.
\<close>

definition send_iter :: "outcome \<Rightarrow> nat \<Rightarrow> sender \<Rightarrow> sender loop" where
  "send_iter res i st =
     (let json_file = json_files st ! i;
          got = (if path_exists (data_dir (host st)) json_file then res else ReadError);
          st1 = on_host (\<lambda>a. a\<lparr>exchanges := exchanges a @ [(json_file, got)]\<rparr>) st
      in case got of
           ReadError \<Rightarrow> Next st1
         | ConnectionError \<Rightarrow> Break st1
         | OtherError \<Rightarrow> Next st1
         | Response r \<Rightarrow>
             if r_status r = Some ''success'' then
               let st2 = (if json_file = ''1.json.gz'' \<and> is_set (r_machine_id r)
                          then case r_machine_id r of
                                 None \<Rightarrow> st1
                               | Some m \<Rightarrow> on_host (save_machine_id m) (st1\<lparr>machine_id := Some m\<rparr>)
                          else st1)
               in if json_file \<in> set (undeletable (host st2)) then Next st2
                  else Next (batch_pause i
                         (on_host (\<lambda>a. a\<lparr>data_dir := os_remove json_file (data_dir a)\<rparr>) st2))
             else if r_message r = Some ''RESEND_STATIC_DATA'' then
               if json_file \<noteq> ''1.json.gz'' \<and> path_exists (data_dir (host st)) ''1.json.gz''
               then Next (st1\<lparr>json_files := ''1.json.gz'' # json_files st1\<rparr>)
               else Next (batch_pause i st1)
             else Next (batch_pause i st1))"

text \<open>
  The loop. The list can grow while it is walked, so the number of iterations has no
  bound in the length of the first list: \<open>None\<close> is a loop that has not ended when the
  fuel is used up.
\<close>

fun send_loop :: "nat \<Rightarrow> (nat \<Rightarrow> outcome) \<Rightarrow> nat \<Rightarrow> sender \<Rightarrow> sender option" where
  "send_loop 0 io i st = None"
| "send_loop (Suc fuel) io i st =
     (if i < length (json_files st)
      then case send_iter (io i) i st of
             Break st' \<Rightarrow> Some st'
           | Next st' \<Rightarrow> send_loop fuel io (Suc i) st'
      else Some st)"

text \<open>
  \<^verbatim>\<open>send_files_to_server\<close>. \<open>connect_ok\<close> tells whether \<^verbatim>\<open>connect\<close> succeeds, \<open>io i\<close>
  is what iteration \<open>i\<close> meets. Every exception is handled inside the function, so the
  \<^verbatim>\<open>backoff\<close> decorator never sees one. The result is the identity returned and the
  agent's state.
\<close>

definition send_files_to_server ::
  "nat \<Rightarrow> bool \<Rightarrow> (nat \<Rightarrow> outcome) \<Rightarrow> agent \<Rightarrow> (string option \<times> agent) option" where
  "send_files_to_server fuel connect_ok io a =
     (let machine_id0 = get_machine_id a;
          files = pending_files (data_dir a) machine_id0
      in if files = [] then Some (machine_id0, a)
         else if \<not> connect_ok then Some (machine_id0, a)
         else map_option (\<lambda>st. (machine_id st, host st))
                (send_loop fuel io 0 \<lparr>host = a, json_files = files, machine_id = machine_id0\<rparr>))"

text \<open>An outcome that is a response with status \<^verbatim>\<open>success\<close>.\<close>

definition is_success :: "outcome \<Rightarrow> bool" where
  "is_success got = (case got of Response r \<Rightarrow> r_status r = Some ''success'' | _ \<Rightarrow> False)"

text \<open>The state an iteration leaves, whether the loop goes on or breaks.\<close>

definition unwrap :: "'a loop \<Rightarrow> 'a" where
  "unwrap l = (case l of Next x \<Rightarrow> x | Break x \<Rightarrow> x)"

section \<open>The agent: the connection of a send cycle\<close>

text \<open>
  One connection carries the envelopes of a cycle, and the other way the collector's
  answers, one for each envelope and in the same order. The agent waits at most five
  seconds for an answer (\<^verbatim>\<open>settimeout(5)\<close>); an answer that comes later stays in the
  socket, and the next \<^verbatim>\<open>recv\<close> returns it. What an iteration meets on the connection:
  \<^item> \<open>Unreadable\<close>: the file does not open or parse, no envelope is sent;
  \<^item> \<open>Reset\<close>: the connection is reset or the pipe broken;
  \<^item> \<open>Timeout\<close>: the envelope is sent and \<^verbatim>\<open>recv\<close> raises \<^verbatim>\<open>socket.timeout\<close>;
  \<^item> \<open>Answers k\<close>: the envelope is sent and \<^verbatim>\<open>recv\<close> returns the \<open>k\<close> oldest answers
    that were not read yet (no more than there are envelopes without a read answer).
    One answer parses as a response; no answer (the collector has closed the connection)
    or several answers at once are not one JSON value, and \<^verbatim>\<open>json.loads\<close> raises.
\<close>

datatype arrival = Unreadable | Reset | Timeout | Answers nat

text \<open>
  What the iterations read, one after the other. \<open>answer n\<close> is the collector's answer
  to envelope number \<open>n\<close> of the connection; \<open>sent\<close> and \<open>seen\<close> count the envelopes sent
  and the answers read so far.
\<close>

fun heard_from :: "(nat \<Rightarrow> response) \<Rightarrow> nat \<Rightarrow> nat \<Rightarrow> arrival list \<Rightarrow> outcome list" where
  "heard_from answer sent seen [] = []"
| "heard_from answer sent seen (Unreadable # es) = ReadError # heard_from answer sent seen es"
| "heard_from answer sent seen (Reset # es) =
     ConnectionError # heard_from answer (Suc sent) seen es"
| "heard_from answer sent seen (Timeout # es) = OtherError # heard_from answer (Suc sent) seen es"
| "heard_from answer sent seen (Answers k # es) =
     (let n = min k (Suc sent - seen)
      in (if n = 1 then Response (answer seen) else OtherError)
         # heard_from answer (Suc sent) (seen + n) es)"

text \<open>
  What iteration \<open>i\<close> reads; past the end of the list the connection is reset. The
  list is to say \<open>Unreadable\<close> for an iteration whose file is not in the spool, since
  that iteration sends nothing.
\<close>

definition heard :: "(nat \<Rightarrow> response) \<Rightarrow> arrival list \<Rightarrow> nat \<Rightarrow> outcome" where
  "heard answer arrivals i =
     (if i < length arrivals then heard_from answer 0 0 arrivals ! i else ConnectionError)"

text \<open>The number of the envelope that iteration \<open>i\<close> sends, if it sends one.\<close>

definition envelope_of :: "arrival list \<Rightarrow> nat \<Rightarrow> nat option" where
  "envelope_of arrivals i =
     (if i < length arrivals \<and> arrivals ! i \<noteq> Unreadable
      then Some (length (filter (\<lambda>e. e \<noteq> Unreadable) (take i arrivals)))
      else None)"

section \<open>The agent: collection loop\<close>

text \<open>
  What one pass of \<^verbatim>\<open>while True\<close> in \<^verbatim>\<open>continuous_collection\<close> reads from outside: the
  size the snapshot would have on disk, the sample (\<open>None\<close> when
  \<^verbatim>\<open>collect_variable_data\<close> returns an error record, else the size of its file), the
  clock, and what a send cycle of this pass would meet.
\<close>

record tick =
  t_snapshot_size :: nat
  t_sample :: "nat option"
  t_now :: real
  t_connect_ok :: bool
  t_io :: "nat \<Rightarrow> outcome"
  t_fuel :: nat

record collector =
  agent_state :: agent
  known_id :: "string option"
  last_send_time :: real

datatype 'a run = Exited 'a | Running 'a | Hung

text \<open>One pass of \<^verbatim>\<open>while True\<close> (lines 649 to 662).\<close>

definition collection_iter :: "tick \<Rightarrow> collector \<Rightarrow> collector loop option" where
  "collection_iter t c =
     (if is_storage_limit_reached (agent_state c) then Some (Break c)
      else
        let a1 = (if \<not> initial_data_saved (agent_state c)
                  then save_initial_data (t_snapshot_size t) (agent_state c)
                  else agent_state c);
            a2 = (if is_set (known_id c)
                  then case t_sample t of
                         Some z \<Rightarrow> save_variable_data_to_file z a1
                       | None \<Rightarrow> a1
                  else a1)
        in if t_now t - last_send_time c \<ge> SEND_INTERVAL
           then case send_files_to_server (t_fuel t) (t_connect_ok t) (t_io t) a2 of
                  None \<Rightarrow> None
                | Some (m, a3) \<Rightarrow>
                    Some (Next \<lparr>agent_state = a3, known_id = m, last_send_time = t_now t\<rparr>)
           else Some (Next (c\<lparr>agent_state := a2\<rparr>)))"

fun collection_loop :: "tick list \<Rightarrow> collector \<Rightarrow> collector run" where
  "collection_loop [] c = Running c"
| "collection_loop (t # ts) c =
     (case collection_iter t c of
        None \<Rightarrow> Hung
      | Some (Break c') \<Rightarrow> Exited c'
      | Some (Next c') \<Rightarrow> collection_loop ts c')"

text \<open>\<^verbatim>\<open>continuous_collection\<close>: \<open>t0\<close> is what the start meets, \<open>ts\<close> what the passes of
  the loop meet. \<open>Exited\<close> is the \<^verbatim>\<open>break\<close>, after which the function and the process
  end; \<open>Running\<close> is a loop that has gone through all of \<open>ts\<close>; \<open>Hung\<close> is a send
  cycle that does not end.\<close>

definition continuous_collection :: "tick \<Rightarrow> tick list \<Rightarrow> agent \<Rightarrow> collector run" where
  "continuous_collection t0 ts a =
     (let a1 = initialize_data_collection a;
          machine_id0 = get_machine_id a1
      in if \<not> is_set machine_id0
         then case send_files_to_server (t_fuel t0) (t_connect_ok t0) (t_io t0)
                     (save_initial_data (t_snapshot_size t0) a1) of
                None \<Rightarrow> Hung
              | Some (m, a2) \<Rightarrow>
                  collection_loop ts \<lparr>agent_state = a2, known_id = m, last_send_time = t_now t0\<rparr>
         else collection_loop ts
                \<lparr>agent_state = a1, known_id = machine_id0, last_send_time = t_now t0\<rparr>)"

section \<open>The agent: scenarios\<close>

text \<open>Responses of the collector, as \<^verbatim>\<open>process_data\<close> builds them.\<close>

definition success :: response where
  "success = \<lparr>r_status = Some ''success'', r_message = Some ''Variable data saved'', r_machine_id = None\<rparr>"

definition registered :: "string \<Rightarrow> response" where
  "registered m = \<lparr>r_status = Some ''success'', r_message = Some ''Static data registered'',
                   r_machine_id = Some m\<rparr>"

definition resend :: response where
  "resend = \<lparr>r_status = Some ''error'', r_message = Some ''RESEND_STATIC_DATA'', r_machine_id = None\<rparr>"

definition failed_save :: response where
  "failed_save = \<lparr>r_status = Some ''error'', r_message = Some ''Failed to save variable data'',
                   r_machine_id = None\<rparr>"

text \<open>An identified agent with four samples in the spool, and a cycle in which the first is
  acknowledged, the second does not parse, the third is refused by the collector and the
  connection breaks at the fourth.\<close>

definition four_samples :: agent where
  "four_samples =
     \<lparr>data_dir = [(''2.json.gz'', 100), (''3.json.gz'', 90), (''4.json.gz'', 80), (''5.json.gz'', 70)],
      id_file = Some ''0123456789abcdef0123456789abcdef'',
      id_readable = True, id_write = Writes, undeletable = [], file_counter = 6,
      initial_data_saved = False, exchanges = [], pauses = 0\<rparr>"

definition mixed_outcomes :: "nat \<Rightarrow> outcome" where
  "mixed_outcomes i =
     (if i = 0 then Response success
      else if i = 1 then ReadError
      else if i = 2 then Response failed_save
      else ConnectionError)"

text \<open>
  An identified agent with two samples in the spool. The collector stores the first and
  answers \<^verbatim>\<open>success\<close>, and fails to store the second; its first answer takes more than five
  seconds and is there when the agent reads after sending the second file.
\<close>

definition two_samples :: agent where
  "two_samples =
     \<lparr>data_dir = [(''2.json.gz'', 100), (''3.json.gz'', 90)],
      id_file = Some ''0123456789abcdef0123456789abcdef'',
      id_readable = True, id_write = Writes, undeletable = [], file_counter = 4,
      initial_data_saved = False, exchanges = [], pauses = 0\<rparr>"

definition stored_then_failed :: "nat \<Rightarrow> response" where
  "stored_then_failed n = (if n = 0 then success else failed_save)"

definition late_answer :: "arrival list" where
  "late_answer = [Timeout, Answers 1]"

text \<open>
  An agent without identity whose spool holds the snapshot and a sample. The collector
  registers the machine and answers the snapshot with the identity, late; the sample, sent
  without identity, it answers \<^verbatim>\<open>RESEND_STATIC_DATA\<close>.
\<close>

definition snapshot_and_sample :: agent where
  "snapshot_and_sample =
     \<lparr>data_dir = [(''1.json.gz'', 2048), (''2.json.gz'', 100)], id_file = None,
      id_readable = True, id_write = Writes, undeletable = [], file_counter = 3,
      initial_data_saved = True, exchanges = [], pauses = 0\<rparr>"

definition registered_then_resend :: "nat \<Rightarrow> response" where
  "registered_then_resend n =
     (if n = 0 then registered ''0123456789abcdef0123456789abcdef'' else resend)"

text \<open>An agent without identity whose spool holds the snapshot.\<close>

definition fresh_agent :: agent where
  "fresh_agent =
     \<lparr>data_dir = [(''1.json.gz'', 2048)], id_file = None,
      id_readable = True, id_write = Writes, undeletable = [], file_counter = 2,
      initial_data_saved = True, exchanges = [], pauses = 0\<rparr>"

text \<open>An agent whose spool holds the snapshot and one sample, and whose cached identity the
  collector does not know. The snapshot file does not parse; every sample is answered
  \<^verbatim>\<open>RESEND_STATIC_DATA\<close> (in the first cycle until the connection breaks).\<close>

definition stale_agent :: agent where
  "stale_agent =
     \<lparr>data_dir = [(''1.json.gz'', 2048), (''2.json.gz'', 300)],
      id_file = Some ''0123456789abcdef0123456789abcdef'',
      id_readable = True, id_write = Writes, undeletable = [], file_counter = 3,
      initial_data_saved = True, exchanges = [], pauses = 0\<rparr>"

definition resend_four_times :: "nat \<Rightarrow> outcome" where
  "resend_four_times i =
     (if i = 0 then ReadError else if i < 4 then Response resend else ConnectionError)"

definition resend_always :: "nat \<Rightarrow> outcome" where
  "resend_always i = (if i = 0 then ReadError else Response resend)"

text \<open>An identified agent that starts with two files of 100 MiB each in the spool, and passes
  of the collection loop in which a sample is captured and every file sent would be
  acknowledged.\<close>

definition full_spool :: agent where
  "full_spool =
     \<lparr>data_dir = [(''7.json.gz'', 104857600), (''8.json.gz'', 104857600)],
      id_file = Some ''0123456789abcdef0123456789abcdef'',
      id_readable = True, id_write = Writes, undeletable = [], file_counter = 1,
      initial_data_saved = False, exchanges = [], pauses = 0\<rparr>"

definition good_tick :: "real \<Rightarrow> tick" where
  "good_tick now = \<lparr>t_snapshot_size = 2048, t_sample = Some 300, t_now = now,
     t_connect_ok = True, t_io = (\<lambda>i. Response success), t_fuel = 100\<rparr>"

text \<open>A spool with the files 1, 2 and 4.\<close>

definition gap_agent :: agent where
  "gap_agent =
     \<lparr>data_dir = [(''4.json.gz'', 80), (''1.json.gz'', 2048), (''2.json.gz'', 100)],
      id_file = None,
      id_readable = True, id_write = Writes, undeletable = [], file_counter = 1,
      initial_data_saved = False, exchanges = [], pauses = 0\<rparr>"

text \<open>An agent with the files 1, 2 and 3; a cycle acknowledges the first two and times out on
  the third; then the process is started again (the module globals have their initial
  values).\<close>

definition before_restart :: agent where
  "before_restart =
     \<lparr>data_dir = [(''1.json.gz'', 2048), (''2.json.gz'', 100), (''3.json.gz'', 90)],
      id_file = Some ''0123456789abcdef0123456789abcdef'',
      id_readable = True, id_write = Writes, undeletable = [], file_counter = 4,
      initial_data_saved = True, exchanges = [], pauses = 0\<rparr>"

definition two_acks_then_timeout :: "nat \<Rightarrow> outcome" where
  "two_acks_then_timeout i =
     (if i = 0 then Response (registered ''0123456789abcdef0123456789abcdef'')
      else if i = 1 then Response success
      else OtherError)"

definition after_restart :: agent where
  "after_restart =
     \<lparr>data_dir = [(''3.json.gz'', 90)],
      id_file = Some ''0123456789abcdef0123456789abcdef'',
      id_readable = True, id_write = Writes, undeletable = [], file_counter = 1,
      initial_data_saved = False, 
      exchanges = [(''1.json.gz'', Response (registered ''0123456789abcdef0123456789abcdef'')),
                   (''2.json.gz'', Response success), (''3.json.gz'', OtherError)],
      pauses = 0\<rparr>"

section \<open>Properties of the identity derivation\<close>

text \<open>
  C9. The identity derivation of the collector and the one of the offline import give the
  same result on every snapshot (and both fail on the same inputs).
\<close>

theorem generate_machine_id_paths_agree:
  "zip_generate_machine_id lib static_data = generate_machine_id lib static_data"
  by (simp add: zip_generate_machine_id_def generate_machine_id_def)

lemma bind_case: "Option.bind m f = (case m of None \<Rightarrow> None | Some x \<Rightarrow> f x)"
  by (cases m) simp_all

text \<open>
  A chain of reads that ends in a value built from thirteen of the results is that value
  built from the results, when all thirteen reads succeed, and fails otherwise.
\<close>

lemma thirteen_reads:
  "do { u \<leftarrow> U; h \<leftarrow> H; n \<leftarrow> N; r \<leftarrow> R; v \<leftarrow> V; c \<leftarrow> C;
        fa \<leftarrow> F; mn \<leftarrow> Fmin fa; fb \<leftarrow> F; mx \<leftarrow> Fmax fb;
        ba \<leftarrow> B; bf \<leftarrow> Bf ba; bb \<leftarrow> B; bv \<leftarrow> Bv bb;
        ca \<leftarrow> K; cf \<leftarrow> Kf ca; cb \<leftarrow> K; cm \<leftarrow> Km cb;
        ra \<leftarrow> M; rt \<leftarrow> Mt ra;
        Some (G [h, n, r, v, u, c, mn, mx, bf, bv, cf, cm, rt]) }
   = map_option G (those [H, N, R, V, U, C, F \<bind> Fmin, F \<bind> Fmax, B \<bind> Bf, B \<bind> Bv,
       K \<bind> Kf, K \<bind> Km, M \<bind> Mt])"
  by (simp add: bind_case split: option.splits)

text \<open>
  The identity is the digest of the thirteen fingerprint values, formatted and joined,
  and there is none when one of the reads raises.
\<close>

lemma generate_machine_id_reads:
  "generate_machine_id lib sd =
     map_option (\<lambda>leaves. md5_hexdigest lib (concat (map (py_format lib) leaves)))
       (those (map (read_path sd) fingerprint_leaves))"
proof (cases sd)
  case (JObj kvs)
  define os_info where "os_info = (case map_of kvs ''os'' of Some v \<Rightarrow> v | None \<Rightarrow> JObj [])"
  define cpu_info where "cpu_info = (case map_of kvs ''cpu'' of Some v \<Rightarrow> v | None \<Rightarrow> JObj [])"
  define bios_info where
    "bios_info = (case map_of kvs ''bios_carte_mere'' of Some v \<Rightarrow> v | None \<Rightarrow> JObj [])"
  define memoire_info where
    "memoire_info = (case map_of kvs ''memoire'' of Some v \<Rightarrow> v | None \<Rightarrow> JObj [])"
  define users where
    "users = (case map_of kvs ''utilisateurs_connectes'' of Some v \<Rightarrow> v | None \<Rightarrow> JArr [])"
  have top: "dict_get sd ''os'' (JObj []) = Some os_info"
    "dict_get sd ''cpu'' (JObj []) = Some cpu_info"
    "dict_get sd ''bios_carte_mere'' (JObj []) = Some bios_info"
    "dict_get sd ''memoire'' (JObj []) = Some memoire_info"
    "dict_get sd ''utilisateurs_connectes'' (JArr []) = Some users"
    by (simp_all add: JObj os_info_def cpu_info_def bios_info_def memoire_info_def users_def)
  show ?thesis
    unfolding generate_machine_id_def fingerprint_leaves_def list.map read_path.simps
      read_step.simps top Option.bind.bind_lunit Option.bind_runit
    by (rule thirteen_reads
          [where G = "\<lambda>leaves. md5_hexdigest lib (concat (map (py_format lib) leaves))",
           unfolded list.map])
qed (simp_all add: generate_machine_id_def fingerprint_leaves_def)

text \<open>
  C7. The identity is a function of the snapshot, and of the thirteen fingerprint values
  only: two snapshots in which each of the thirteen reads gives the same result get the
  same identity, whatever else differs between them, at the top of the snapshot
  (\<^verbatim>\<open>timestamp\<close>, \<^verbatim>\<open>adresse_mac\<close>, \<^verbatim>\<open>disque\<close>, \<^verbatim>\<open>gpu\<close>, \<^verbatim>\<open>peripheriques_usb\<close>, ...) or
  inside the sections the fingerprint reads from (\<^verbatim>\<open>memoire.ram.disponible\<close>,
  \<^verbatim>\<open>cpu.frequence.actuelle\<close>, ...).
\<close>

theorem generate_machine_id_fingerprint_only:
  assumes "\<forall>p \<in> set fingerprint_leaves. read_path a p = read_path b p"
  shows "generate_machine_id lib a = generate_machine_id lib b"
proof -
  have "map (read_path a) fingerprint_leaves = map (read_path b) fingerprint_leaves"
    using assms by simp
  then show ?thesis by (simp only: generate_machine_id_reads)
qed

lemma snapshots_differ:
  "snapshot_morning \<noteq> snapshot_evening"
  "read_path snapshot_morning [Key ''memoire'' (JObj []), Key ''ram'' (JObj []), Key ''disponible'' (JStr [])]
     \<noteq> read_path snapshot_evening [Key ''memoire'' (JObj []), Key ''ram'' (JObj []), Key ''disponible'' (JStr [])]"
  "read_path snapshot_morning [Key ''cpu'' (JObj []), Key ''frequence'' (JObj []), Key ''actuelle'' (JInt 0)]
     \<noteq> read_path snapshot_evening [Key ''cpu'' (JObj []), Key ''frequence'' (JObj []), Key ''actuelle'' (JInt 0)]"
  "read_path snapshot_morning [Key ''os'' (JObj []), Key ''architecture'' (JStr [])]
     \<noteq> read_path snapshot_evening [Key ''os'' (JObj []), Key ''architecture'' (JStr [])]"
  "list_all (\<lambda>k. read_path snapshot_morning [Key k JNull] \<noteq> read_path snapshot_evening [Key k JNull])
     [''timestamp'', ''adresse_mac'', ''disque'', ''gpu'', ''peripheriques_usb'', ''os'', ''cpu'',
      ''memoire'', ''bios_carte_mere'', ''utilisateurs_connectes'']"
  by (simp_all add: snapshot_morning_def snapshot_evening_def)

theorem generate_machine_id_fingerprint_only_witness:
  "list_all (\<lambda>p. read_path snapshot_morning p = read_path snapshot_evening p) fingerprint_leaves
   \<and> list_all (\<lambda>k. read_path snapshot_morning [Key k JNull] \<noteq> read_path snapshot_evening [Key k JNull])
       [''timestamp'', ''adresse_mac'', ''disque'', ''gpu'', ''peripheriques_usb'', ''os'', ''cpu'',
        ''memoire'', ''bios_carte_mere'', ''utilisateurs_connectes'']
   \<and> read_path snapshot_morning [Key ''memoire'' (JObj []), Key ''ram'' (JObj []), Key ''disponible'' (JStr [])]
       \<noteq> read_path snapshot_evening [Key ''memoire'' (JObj []), Key ''ram'' (JObj []), Key ''disponible'' (JStr [])]
   \<and> read_path snapshot_morning [Key ''cpu'' (JObj []), Key ''frequence'' (JObj []), Key ''actuelle'' (JInt 0)]
       \<noteq> read_path snapshot_evening [Key ''cpu'' (JObj []), Key ''frequence'' (JObj []), Key ''actuelle'' (JInt 0)]
   \<and> (\<forall>lib. generate_machine_id lib snapshot_morning = generate_machine_id lib snapshot_evening)"
proof -
  have agree: "\<forall>p \<in> set fingerprint_leaves.
      read_path snapshot_morning p = read_path snapshot_evening p"
    by (simp add: fingerprint_leaves_def snapshot_morning_def snapshot_evening_def
          first_username_def Carte_mere_def Modele_def)
  show ?thesis
    using agree snapshots_differ generate_machine_id_fingerprint_only [OF agree]
    by (simp add: list_all_iff)
qed

section \<open>Properties of the collector\<close>

lemma ids_update_one:
  "(\<And>r. P r \<Longrightarrow> mr_machine_id (f r) = mr_machine_id r) \<Longrightarrow>
   mr_machine_id ` set (update_one P f coll) = mr_machine_id ` set coll"
  by (induction coll) auto

lemma set_registered_ids:
  "set (registered_ids db) = JStr ` mr_machine_id ` set (machine_ids_collection db)"
  by (simp add: registered_ids_def image_image)

text \<open>For a string or \<^verbatim>\<open>None\<close>, the lookup finds a document exactly when the registry
  holds that identity.\<close>

lemma find_one_plain:
  "str_or_none q \<Longrightarrow>
   (find_one lib (machine_ids_collection db) q = None) = (q \<notin> set (registered_ids db))"
  by (cases q) (auto simp: find_one_def find_None_iff matches_def set_registered_ids)

lemma samples_registered_registry:
  assumes "samples_registered db"
    and "set (registered_ids db) \<subseteq> set (registered_ids (db\<lparr>machine_ids_collection := coll\<rparr>))"
  shows "samples_registered (db\<lparr>machine_ids_collection := coll\<rparr>)"
  using assms by (auto simp: samples_registered_def list_all_iff)

lemma samples_registered_insert:
  assumes "samples_registered db" and "vd_machine_id d \<in> set (registered_ids db)"
  shows "samples_registered (db\<lparr>variable_collection := variable_collection db @ [d]\<rparr>)"
  using assms by (simp add: samples_registered_def registered_ids_def)

lemma register_machine_keeps:
  assumes "register_machine lib flt now db mid sd = (ok, db')" and "samples_registered db"
  shows "samples_registered db'"
proof -
  from assms(1) consider
      (same) "db' = db"
    | (upd) h n where "db' = db\<lparr>machine_ids_collection :=
                            update_one (matches lib (JStr mid))
                              (\<lambda>r. r\<lparr>mr_machine_id := mid, mr_hostname := h,
                                      mr_os_name := n, mr_last_seen := now,
                                      mr_status := ''active''\<rparr>)
                              (machine_ids_collection db)\<rparr>"
    | (ins) r where "db' = db\<lparr>machine_ids_collection := machine_ids_collection db @ [r]\<rparr>"
    unfolding register_machine_def
    by (simp split: option.splits if_splits prod.splits) blast+
  then show ?thesis
  proof cases
    case same
    with assms(2) show ?thesis by simp
  next
    case upd
    have "mr_machine_id ` set (update_one (matches lib (JStr mid))
              (\<lambda>r. r\<lparr>mr_machine_id := mid, mr_hostname := h, mr_os_name := n,
                      mr_last_seen := now, mr_status := ''active''\<rparr>)
              (machine_ids_collection db)) = mr_machine_id ` set (machine_ids_collection db)"
      by (rule ids_update_one) (simp add: matches_def)
    then show ?thesis
      unfolding upd by (intro samples_registered_registry assms(2)) (simp add: set_registered_ids)
  next
    case ins
    show ?thesis
      unfolding ins by (intro samples_registered_registry assms(2)) (auto simp: set_registered_ids)
  qed
qed

lemma save_static_data_keeps:
  assumes "save_static_data flt now db mid sd = (ok, db')" and "samples_registered db"
  shows "samples_registered db'"
proof -
  from assms(1) consider (same) "db' = db"
    | (ups) c where "db' = db\<lparr>static_collection := c\<rparr>"
    unfolding save_static_data_def
    by (simp split: option.splits if_splits) blast+
  then show ?thesis
    using assms(2) by cases (simp_all add: samples_registered_def registered_ids_def)
qed

lemma save_variable_data_keeps:
  assumes "save_variable_data lib flt now db mid content = (ok, db')"
    and "mid \<in> set (registered_ids db)"
    and "samples_registered db"
  shows "samples_registered db'"
proof -
  from assms(1) consider (same) "db' = db"
    | (ins) d where "vd_machine_id d = mid"
        "db' = db\<lparr>variable_collection := variable_collection db @ [d]\<rparr>"
    | (both) d where "vd_machine_id d = mid"
        "db' = db\<lparr>variable_collection := variable_collection db @ [d],
                   machine_ids_collection :=
                     update_one (matches lib mid)
                       (\<lambda>r. r\<lparr>mr_last_seen := now\<rparr>) (machine_ids_collection db)\<rparr>"
    unfolding save_variable_data_def Let_def
    by (simp split: option.splits if_splits) force+
  then show ?thesis
  proof cases
    case same
    with assms(3) show ?thesis by simp
  next
    case ins
    with assms(2,3) show ?thesis by (simp add: samples_registered_insert)
  next
    case both
    have ids: "mr_machine_id ` set (update_one (matches lib mid)
              (\<lambda>r. r\<lparr>mr_last_seen := now\<rparr>) (machine_ids_collection db))
           = mr_machine_id ` set (machine_ids_collection db)"
      by (rule ids_update_one) simp
    have "samples_registered (db\<lparr>variable_collection := variable_collection db @ [d]\<rparr>)"
      using assms(2,3) both(1) by (simp add: samples_registered_insert)
    then have "samples_registered
        ((db\<lparr>variable_collection := variable_collection db @ [d]\<rparr>)
           \<lparr>machine_ids_collection := update_one (matches lib mid)
                       (\<lambda>r. r\<lparr>mr_last_seen := now\<rparr>) (machine_ids_collection db)\<rparr>)"
      by (rule samples_registered_registry) (simp add: set_registered_ids ids)
    then show ?thesis by (simp add: both(2))
  qed
qed

lemma static_branch_keeps:
  assumes "samples_registered db"
    and "register_machine lib flt now db mid content = (ok1, db1)"
    and "save_static_data flt now db1 mid content = (ok2, db2)"
  shows "samples_registered db1" and "samples_registered db2"
proof -
  show 1: "samples_registered db1" by (rule register_machine_keeps [OF assms(2) assms(1)])
  show "samples_registered db2" by (rule save_static_data_keeps [OF assms(3) 1])
qed

lemma process_data_try_keeps:
  assumes "process_data_try lib flt now db data = Inr (r, db')" and "samples_registered db"
    and "plain_envelope data"
  shows "samples_registered db'"
proof -
  obtain version where v: "get_exc data ''version'' JNull = Inr version"
    using assms(1) by (auto simp: process_data_try_def bind_exc_def split: sum.splits)
  show ?thesis
  proof (cases "version = JStr ''1.0''")
    case False
    with assms v show ?thesis by (simp add: process_data_try_def bind_exc_def)
  next
    case True
    obtain content where c: "get_exc data ''content'' JNull = Inr content"
      using assms(1) v True by (auto simp: process_data_try_def bind_exc_def split: sum.splits)
    obtain is_static where s: "py_in ''os'' content = Inr is_static"
      using assms(1) v True c by (auto simp: process_data_try_def bind_exc_def split: sum.splits)
    show ?thesis
    proof (cases is_static)
      case True
      have "StaticData lib content = Inr ()"
        using assms(1) v \<open>version = JStr ''1.0''\<close> c s True
        by (auto simp: process_data_try_def bind_exc_def split: sum.splits)
      then have *: "(case generate_machine_id lib content of
             None \<Rightarrow> Inr (error_reply (Msg ''Failed to register machine''), db)
           | Some idv \<Rightarrow>
               if idv = [] then Inr (error_reply (Msg ''Failed to register machine''), db)
               else (case register_machine lib flt now db idv content of
                       (False, db1) \<Rightarrow> Inr (error_reply (Msg ''Failed to register machine''), db1)
                     | (True, db1) \<Rightarrow>
                         (case save_static_data flt now db1 idv content of
                            (False, db2) \<Rightarrow>
                              Inr (error_reply (Msg ''Failed to save static data''), db2)
                          | (True, db2) \<Rightarrow>
                              Inr (\<lparr>status = ''success'', message = Msg ''Static data registered'',
                                    reply_machine_id = Some idv\<rparr>, db2)))) = (Inr (r, db') :: py_exc + reply \<times> database)"
        using assms(1) v \<open>version = JStr ''1.0''\<close> c s True
        by (simp add: process_data_try_def bind_exc_def)
      show ?thesis
      proof (cases "generate_machine_id lib content")
        case None
        with * assms(2) show ?thesis by simp
      next
        case (Some mid)
        show ?thesis
        proof (cases "mid = []")
          case True
          with * Some assms(2) show ?thesis by simp
        next
          case False
          obtain ok1 db1 where r1: "register_machine lib flt now db mid content = (ok1, db1)"
            by (cases "register_machine lib flt now db mid content")
          obtain ok2 db2 where r2: "save_static_data flt now db1 mid content = (ok2, db2)"
            by (cases "save_static_data flt now db1 mid content")
          note k = static_branch_keeps [OF assms(2) r1 r2]
          from * Some False r1 r2 have "db' = db1 \<or> db' = db2"
            by (cases ok1; cases ok2) simp_all
          with k show ?thesis by blast
        qed
      qed
    next
      case False
      obtain has_id where h: "py_in ''machine_id'' data = Inr has_id"
        using assms(1) v \<open>version = JStr ''1.0''\<close> c s False
        by (auto simp: process_data_try_def bind_exc_def split: sum.splits)
      show ?thesis
      proof (cases has_id)
        case False
        with assms v \<open>version = JStr ''1.0''\<close> c s \<open>\<not> is_static\<close> h show ?thesis
          by (simp add: process_data_try_def bind_exc_def)
      next
        case True
        obtain mid where m: "get_exc data ''machine_id'' JNull = Inr mid"
          using assms(1) v \<open>version = JStr ''1.0''\<close> c s \<open>\<not> is_static\<close> h True
          by (auto simp: process_data_try_def bind_exc_def split: sum.splits)
        then have "dict_get data ''machine_id'' JNull = Some mid"
          by (simp add: get_exc_def split: option.splits)
        with assms(3) have plain: "str_or_none mid"
          by (simp add: plain_envelope_def)
        have *: "(if find_raises flt then Inl GatewayError
           else if find_one lib (machine_ids_collection db) mid = None
           then Inr (error_reply (Msg ''RESEND_STATIC_DATA''), db)
           else (case save_variable_data lib flt now db mid content of
                   (False, db1) \<Rightarrow> Inr (error_reply (Msg ''Failed to save variable data''), db1)
                 | (True, db1) \<Rightarrow>
                     Inr (\<lparr>status = ''success'', message = Msg ''Variable data saved'',
                           reply_machine_id = None\<rparr>, db1))) = (Inr (r, db') :: py_exc + reply \<times> database)"
          using assms(1) v \<open>version = JStr ''1.0''\<close> c s \<open>\<not> is_static\<close> h True m
          by (simp add: process_data_try_def bind_exc_def)
        show ?thesis
        proof (cases "find_one lib (machine_ids_collection db) mid = None")
          case True
          with * assms(2) show ?thesis by (cases "find_raises flt") simp_all
        next
          case False
          with plain have known: "mid \<in> set (registered_ids db)"
            by (simp add: find_one_plain)
          obtain ok1 db1 where r1: "save_variable_data lib flt now db mid content = (ok1, db1)"
            by (cases "save_variable_data lib flt now db mid content")
          from * False r1 have "db' = db1" by (cases ok1; cases "find_raises flt") simp_all
          with save_variable_data_keeps [OF r1 known assms(2)] show ?thesis by simp
        qed
      qed
    qed
  qed
qed

lemma process_data_keeps:
  assumes "samples_registered db" and "plain_envelope data"
  shows "samples_registered (snd (process_data lib flt now db data))"
proof (cases "process_data_try lib flt now db data")
  case (Inl e)
  with assms show ?thesis by (cases e) (simp_all add: process_data_def)
next
  case (Inr p)
  obtain r db' where p: "p = (r, db')" by (cases p)
  have "samples_registered db'"
    using Inr assms unfolding p by (rule process_data_try_keeps)
  with Inr p show ?thesis by (simp add: process_data_def)
qed

lemma serve_keeps:
  "samples_registered db \<Longrightarrow> list_all (\<lambda>(flt, now, data). plain_envelope data) reqs \<Longrightarrow>
   samples_registered (serve lib db reqs)"
proof (induction reqs arbitrary: db)
  case Nil
  then show ?case by simp
next
  case (Cons req reqs)
  obtain flt now data where "req = (flt, now, data)" by (cases req)
  with Cons show ?case by (simp add: process_data_keeps)
qed

text \<open>
  C2, as the code has it. An envelope of protocol version 1.0 that carries a
  \<^verbatim>\<open>machine_id\<close> field, whose content has no \<^verbatim>\<open>os\<close> entry and whose identity is a string
  (or \<^verbatim>\<open>None\<close>) that the registry does not hold, is answered \<^verbatim>\<open>RESEND_STATIC_DATA\<close> with
  status \<^verbatim>\<open>error\<close>, and the database is left as it was (the registry lookup itself not
  failing). Whatever envelopes with such identities, clock readings and gateway failures
  the collector meets, it keeps the database in a state where every stored sample carries
  an identity the registry holds.
\<close>

theorem unknown_identity_gets_resend:
  assumes "dict_get data ''version'' JNull = Some (JStr ''1.0'')"
    and "dict_get data ''content'' JNull = Some content"
    and "py_in ''os'' content = Inr False"
    and "py_in ''machine_id'' data = Inr True"
    and "dict_get data ''machine_id'' JNull = Some idv"
    and "str_or_none idv"
    and "idv \<notin> set (registered_ids db)"
    and "\<not> find_raises flt"
  shows "process_data lib flt now db data = (error_reply (Msg ''RESEND_STATIC_DATA''), db)
       \<and> (samples_registered db0 \<and> list_all (\<lambda>(f, t, d). plain_envelope d) reqs
            \<longrightarrow> samples_registered (serve lib db0 reqs))"
proof (intro conjI impI)
  have "find_one lib (machine_ids_collection db) idv = None"
    using assms(6,7) by (simp add: find_one_plain)
  then show "process_data lib flt now db data = (error_reply (Msg ''RESEND_STATIC_DATA''), db)"
    using assms by (simp add: process_data_def process_data_try_def bind_exc_def get_exc_def)
next
  assume "samples_registered db0 \<and> list_all (\<lambda>(f, t, d). plain_envelope d) reqs"
  then show "samples_registered (serve lib db0 reqs)"
    by (simp add: serve_keeps)
qed

theorem unknown_identity_gets_resend_witness:
  "\<forall>lib now.
     process_data lib no_faults now one_machine unknown_envelope =
       (error_reply (Msg ''RESEND_STATIC_DATA''), one_machine)
     \<and> samples_registered one_machine
     \<and> variable_collection
         (serve lib one_machine [(no_faults, now, unknown_envelope), (no_faults, now, sample_envelope)])
         \<noteq> []
     \<and> samples_registered
         (serve lib one_machine [(no_faults, now, unknown_envelope), (no_faults, now, sample_envelope)])"
proof (intro allI)
  fix lib :: pylib and now :: nat
  have start: "samples_registered one_machine"
    by (simp add: samples_registered_def one_machine_def)
  have plain: "list_all (\<lambda>(f, t, d). plain_envelope d)
      [(no_faults, now, unknown_envelope), (no_faults, now, sample_envelope)]"
    by (simp add: plain_envelope_def unknown_envelope_def sample_envelope_def)
  have stored: "variable_collection
         (serve lib one_machine [(no_faults, now, unknown_envelope), (no_faults, now, sample_envelope)])
         \<noteq> []"
    by (simp add: process_data_def process_data_try_def bind_exc_def get_exc_def
          unknown_envelope_def sample_envelope_def one_machine_def no_faults_def find_one_def
          matches_def save_variable_data_def get_fields_def variable_doc_spec_def Let_def)
  have "process_data lib no_faults now one_machine unknown_envelope =
       (error_reply (Msg ''RESEND_STATIC_DATA''), one_machine)
     \<and> (samples_registered one_machine
          \<and> list_all (\<lambda>(f, t, d). plain_envelope d)
               [(no_faults, now, unknown_envelope), (no_faults, now, sample_envelope)]
        \<longrightarrow> samples_registered
          (serve lib one_machine [(no_faults, now, unknown_envelope), (no_faults, now, sample_envelope)]))"
    by (rule unknown_identity_gets_resend
          [where content = "JObj [(''timestamp'', JStr ''2024-05-01 10:00:02''),
                          (''cpu'', JObj [(''global_utilise'', JInt 12)])]"
             and idv = "JStr ''fedcba9876543210fedcba9876543210''"])
       (simp_all add: unknown_envelope_def one_machine_def no_faults_def registered_ids_def)
  with start plain stored
  show "process_data lib no_faults now one_machine unknown_envelope =
       (error_reply (Msg ''RESEND_STATIC_DATA''), one_machine)
     \<and> samples_registered one_machine
     \<and> variable_collection
         (serve lib one_machine [(no_faults, now, unknown_envelope), (no_faults, now, sample_envelope)])
         \<noteq> []
     \<and> samples_registered
         (serve lib one_machine [(no_faults, now, unknown_envelope), (no_faults, now, sample_envelope)])"
    by blast
qed

text \<open>
  C2 as stated fails for an envelope of another protocol version: its content has no
  \<^verbatim>\<open>os\<close> entry and its identity is unknown, and the answer is \<^verbatim>\<open>Invalid data version\<close>.
\<close>

theorem old_version_not_resend:
  "py_in ''os'' (JObj [(''timestamp'', JStr ''2024-05-01 10:00:02''),
                          (''cpu'', JObj [(''global_utilise'', JInt 12)])]) = Inr False
   \<and> dict_get old_version_envelope ''content'' JNull =
       Some (JObj [(''timestamp'', JStr ''2024-05-01 10:00:02''),
                          (''cpu'', JObj [(''global_utilise'', JInt 12)])])
   \<and> dict_get old_version_envelope ''machine_id'' JNull = Some (JStr ''0123456789abcdef0123456789abcdef'')
   \<and> JStr ''0123456789abcdef0123456789abcdef'' \<notin> set (registered_ids empty_database)
   \<and> (\<forall>lib. find_one lib (machine_ids_collection empty_database)
               (JStr ''0123456789abcdef0123456789abcdef'') = None)
   \<and> (\<forall>lib now. process_data lib no_faults now empty_database old_version_envelope =
       (error_reply (Msg ''Invalid data version''), empty_database))"
  by (simp add: old_version_envelope_def empty_database_def no_faults_def find_one_def
        registered_ids_def process_data_def process_data_try_def bind_exc_def get_exc_def)

text \<open>
  An identity that is a dictionary is not covered by the above: the registry lookup reads
  \<^verbatim>\<open>{"$ne": ""}\<close> as the condition that the stored identity is not the empty string.
  With one machine registered, the lookup finds that machine, the envelope is answered
  \<^verbatim>\<open>success\<close>, and the sample is stored under the dictionary, which is no identity of
  the registry.
\<close>

lemma operator_identity_is_stored:
  assumes "mongo_matches lib (JObj [(''$ne'', JStr [])]) ''0123456789abcdef0123456789abcdef''"
  shows "fst (process_data lib no_faults now one_machine operator_envelope) =
           \<lparr>status = ''success'', message = Msg ''Variable data saved'', reply_machine_id = None\<rparr>"
    and "map vd_machine_id
           (variable_collection (snd (process_data lib no_faults now one_machine operator_envelope)))
         = [JObj [(''$ne'', JStr [])]]"
    and "\<not> samples_registered (snd (process_data lib no_faults now one_machine operator_envelope))"
  using assms
  by (simp_all add: process_data_def process_data_try_def bind_exc_def get_exc_def
        operator_envelope_def one_machine_def no_faults_def find_one_def matches_def
        save_variable_data_def get_fields_def variable_doc_spec_def Let_def
        samples_registered_def registered_ids_def)

section \<open>Properties of the admission of connections\<close>

lemma length_set_phase [simp]: "length (set_phase c ps p' ws) = length ws"
  by (induction ws) auto

lemma length_remove_finished: "length (remove_finished c ws) \<le> length ws"
  by (induction ws) auto

lemma counted_remove_finished [simp]: "counted (remove_finished c ws) = counted ws"
  by (induction c ws rule: remove_finished.induct) (auto simp: counted_def)

lemma counted_le: "counted ws \<le> length ws"
  by (simp add: counted_def)

lemma counted_enter:
  "in_phase c [Started] ws \<Longrightarrow> p' \<in> {Admitted, Refused} \<Longrightarrow>
   counted (set_phase c [Started] p' ws) = Suc (counted ws)"
  by (induction c "[Started]" p' ws rule: set_phase.induct) (auto simp: counted_def in_phase_def)

lemma counted_started_lt:
  "in_phase c [Started] ws \<Longrightarrow> counted ws < length ws"
  by (induction ws) (auto simp: counted_def in_phase_def le_imp_less_Suc)

lemma counted_hangup:
  "counted (set_phase c [Admitted] Hungup ws) = counted ws"
  by (induction c "[Admitted]" Hungup ws rule: set_phase.induct) (auto simp: counted_def)

lemma counted_cleanup:
  "in_phase c [Refused, Hungup] ws \<Longrightarrow>
   Suc (counted (set_phase c [Refused, Hungup] Finished ws)) = counted ws"
  by (induction c "[Refused, Hungup]" Finished ws rule: set_phase.induct)
     (auto simp: counted_def in_phase_def)

lemma pool_step_inv: "admission_inv s \<Longrightarrow> admission_inv (pool_step e s)"
proof (cases e)
  case (Accept c)
  assume "admission_inv s" with Accept show ?thesis by (simp add: admission_inv_def)
next
  case Pick
  assume "admission_inv s" with Pick show ?thesis
    by (auto simp: admission_inv_def counted_def split: list.splits)
next
  case (Enter c)
  assume inv: "admission_inv s"
  show ?thesis
  proof (cases "in_phase c [Started] (workers s)")
    case False
    with Enter inv show ?thesis by simp
  next
    case True
    from counted_started_lt [OF True] inv
    have "active_connections s + 1 \<le> int MAX_CONCURRENT_CONNECTIONS"
      by (simp add: admission_inv_def)
    with Enter True inv show ?thesis
      by (simp add: admission_inv_def Let_def counted_enter)
  qed
next
  case (Hangup c)
  assume "admission_inv s" with Hangup show ?thesis
    by (simp add: admission_inv_def counted_hangup)
next
  case (Cleanup c)
  assume inv: "admission_inv s"
  show ?thesis
  proof (cases "in_phase c [Refused, Hungup] (workers s)")
    case False
    with Cleanup inv show ?thesis by simp
  next
    case True
    from counted_cleanup [OF True] Cleanup True inv show ?thesis
      by (simp add: admission_inv_def)
  qed
next
  case (Return c)
  assume "admission_inv s"
  with Return length_remove_finished [of c "workers s"] show ?thesis
    by (simp add: admission_inv_def)
qed

lemma pool_run_inv: "admission_inv s \<Longrightarrow> admission_inv (pool_run es s)"
  by (induction es arbitrary: s) (simp_all add: pool_step_inv)

text \<open>
  C5. The limit the executor puts on running calls is the limit \<^verbatim>\<open>handle_client\<close> tests
  the counter against, so the counter never passes it: under every schedule no connection
  is ever sent \<^verbatim>\<open>Too many connections\<close>. A connection that arrives while fifty calls run
  waits in the executor's queue instead.
\<close>

theorem never_refused: "refused (pool_run es initial_server) = []"
proof -
  have "admission_inv initial_server"
    by (simp add: admission_inv_def initial_server_def counted_def)
  then have "admission_inv (pool_run es initial_server)" by (rule pool_run_inv)
  then show ?thesis by (simp add: admission_inv_def)
qed

text \<open>
  With fifty connections admitted, the fifty-first has received nothing and is not
  closed: it is still in the queue.
\<close>

lemma burst_leaves_one_waiting:
  "pool_run burst initial_server =
     \<lparr>active_connections = 50, work_queue = [51],
      workers = map (\<lambda>c. (c, Admitted)) [1..<51], refused = [], closed = []\<rparr>"
  by code_simp

section \<open>Properties of the agent\<close>

declare first_free.simps [simp del]

lemma host_on_host [simp]: "host (on_host f st) = f (host st)"
  by (simp add: on_host_def)

lemma json_files_on_host [simp]: "json_files (on_host f st) = json_files st"
  by (simp add: on_host_def)

lemma machine_id_on_host [simp]: "machine_id (on_host f st) = machine_id st"
  by (simp add: on_host_def)

lemma host_batch_pause [simp]:
  "data_dir (host (batch_pause i st)) = data_dir (host st)"
  "exchanges (host (batch_pause i st)) = exchanges (host st)"
  "id_file (host (batch_pause i st)) = id_file (host st)"
  "machine_id (batch_pause i st) = machine_id st"
  "json_files (batch_pause i st) = json_files st"
  by (simp_all add: batch_pause_def)

text \<open>
  One iteration changes the spool in one way only: it removes the file it handles, when
  what it read is a response with status \<^verbatim>\<open>success\<close> and \<^verbatim>\<open>os.remove\<close> does not
  raise. The test is on what the iteration read, whichever envelope that answers.
\<close>

lemma send_iter_data_dir:
  "data_dir (host (unwrap (send_iter res i st))) =
     (if path_exists (data_dir (host st)) (json_files st ! i) \<and> is_success res
         \<and> json_files st ! i \<notin> set (undeletable (host st))
      then os_remove (json_files st ! i) (data_dir (host st))
      else data_dir (host st))"
  by (simp add: send_iter_def unwrap_def Let_def save_machine_id_def is_success_def
        split: outcome.splits option.splits id_write.splits)

text \<open>
  C1. The agent takes the response it reads in an iteration for the answer to the file of
  that iteration. A read that times out is caught by the generic handler and the loop goes
  on, so the late answer to one file is read as the answer to the next. Here the collector
  stores \<^verbatim>\<open>2.json.gz\<close> and fails to store \<^verbatim>\<open>3.json.gz\<close>, its first answer is late:
  the agent keeps \<^verbatim>\<open>2.json.gz\<close>, whose envelope was answered \<^verbatim>\<open>success\<close>, and
  removes \<^verbatim>\<open>3.json.gz\<close>, whose envelope was answered with an error.
\<close>

theorem late_answer_removes_refused_file:
  "send_files_to_server 3 True (heard stored_then_failed late_answer) two_samples =
     Some (Some ''0123456789abcdef0123456789abcdef'',
       two_samples\<lparr>data_dir := [(''2.json.gz'', 100)],
         exchanges := [(''2.json.gz'', OtherError), (''3.json.gz'', Response success)]\<rparr>)
   \<and> map (\<lambda>i. map_option stored_then_failed (envelope_of late_answer i)) [0, 1] =
       [Some success, Some failed_save]"
  by code_simp

text \<open>
  In the same way the late answer to the snapshot is read as the answer to the sample
  that follows: the sample is removed, the identity is neither kept nor written, and the
  snapshot stays in the spool.
\<close>

lemma late_snapshot_answer_removes_sample:
  "send_files_to_server 3 True (heard registered_then_resend late_answer) snapshot_and_sample =
     Some (None,
       snapshot_and_sample\<lparr>data_dir := [(''1.json.gz'', 2048)],
         exchanges := [(''1.json.gz'', OtherError),
                       (''2.json.gz'', Response (registered ''0123456789abcdef0123456789abcdef''))]\<rparr>)
   \<and> map (\<lambda>i. map_option registered_then_resend (envelope_of late_answer i)) [0, 1] =
       [Some (registered ''0123456789abcdef0123456789abcdef''), Some resend]"
  by code_simp

lemma not_exists_after_remove: "\<not> path_exists (os_remove f d) f"
  by (auto simp: path_exists_def listdir_def os_remove_def)

text \<open>
  C10, as the code has it. The iteration that handles \<^verbatim>\<open>1.json.gz\<close> and reads a
  \<^verbatim>\<open>success\<close> response with a non-empty \<^verbatim>\<open>machine_id\<close> keeps that identity for the rest
  of the cycle, then writes it to \<^verbatim>\<open>ID_FILE\<close>, then removes \<^verbatim>\<open>1.json.gz\<close>. A failure of
  the write is logged and does not stop the removal: \<^verbatim>\<open>ID_FILE\<close> holds the identity if
  the write succeeds, is left as it was if it cannot be opened, and is empty if writing
  fails after that. The snapshot is gone unless \<^verbatim>\<open>os.remove\<close> raises, in which case it
  stays, with the identity saved.
\<close>

theorem snapshot_ack_saves_identity_and_removes_file:
  assumes "i < length (json_files st)"
    and "json_files st ! i = ''1.json.gz''"
    and "path_exists (data_dir (host st)) ''1.json.gz''"
    and "r_status r = Some ''success''"
    and "r_machine_id r = Some m"
    and "m \<noteq> []"
  shows "\<exists>st'. send_iter (Response r) i st = Next st'
           \<and> machine_id st' = Some m
           \<and> id_file (host st') =
               (case id_write (host st) of
                  Writes \<Rightarrow> Some m
                | Open_fails \<Rightarrow> id_file (host st)
                | Write_fails \<Rightarrow> Some [])
           \<and> path_exists (data_dir (host st')) ''1.json.gz'' =
               (''1.json.gz'' \<in> set (undeletable (host st)))"
  using assms
  by (cases "id_write (host st)")
     (simp_all add: send_iter_def Let_def is_set_def save_machine_id_def not_exists_after_remove)

theorem snapshot_ack_saves_identity_and_removes_file_witness:
  "\<exists>st'. send_iter (Response (registered ''0123456789abcdef0123456789abcdef'')) 0
            \<lparr>host = fresh_agent, json_files = [''1.json.gz''], machine_id = None\<rparr> = Next st'
         \<and> machine_id st' = Some ''0123456789abcdef0123456789abcdef''
         \<and> id_file (host st') = Some ''0123456789abcdef0123456789abcdef''
         \<and> \<not> path_exists (data_dir (host st')) ''1.json.gz''"
  using snapshot_ack_saves_identity_and_removes_file
    [of 0 "\<lparr>host = fresh_agent, json_files = [''1.json.gz''], machine_id = None\<rparr>"
        "registered ''0123456789abcdef0123456789abcdef''" "''0123456789abcdef0123456789abcdef''"]
  by (simp add: fresh_agent_def registered_def path_exists_def listdir_def)

text \<open>
  C10 as stated fails. When \<^verbatim>\<open>ID_FILE\<close> cannot be written, the cycle that has the
  snapshot acknowledged with an identity removes the snapshot and leaves no identity on
  disk; when the snapshot cannot be removed, it is still in the spool after the
  acknowledgement.
\<close>

theorem snapshot_removed_identity_not_saved:
  "send_files_to_server 3 True (\<lambda>i. Response (registered ''0123456789abcdef0123456789abcdef''))
      (fresh_agent\<lparr>id_write := Open_fails\<rparr>) =
     Some (Some ''0123456789abcdef0123456789abcdef'',
           fresh_agent\<lparr>id_write := Open_fails, data_dir := [],
             exchanges := [(''1.json.gz'', Response (registered ''0123456789abcdef0123456789abcdef''))]\<rparr>)
   \<and> id_file (fresh_agent\<lparr>id_write := Open_fails, data_dir := [],
             exchanges := [(''1.json.gz'', Response (registered ''0123456789abcdef0123456789abcdef''))]\<rparr>)
       = None
   \<and> send_files_to_server 3 True (\<lambda>i. Response (registered ''0123456789abcdef0123456789abcdef''))
      (fresh_agent\<lparr>undeletable := [''1.json.gz'']\<rparr>) =
     Some (Some ''0123456789abcdef0123456789abcdef'',
           fresh_agent\<lparr>undeletable := [''1.json.gz''],
             id_file := Some ''0123456789abcdef0123456789abcdef'',
             exchanges := [(''1.json.gz'', Response (registered ''0123456789abcdef0123456789abcdef''))]\<rparr>)"
  by code_simp

lemma fresh_agent_cycle:
  "send_files_to_server 3 True (\<lambda>i. Response (registered ''0123456789abcdef0123456789abcdef'')) fresh_agent =
     Some (Some ''0123456789abcdef0123456789abcdef'',
           fresh_agent\<lparr>data_dir := [], id_file := Some ''0123456789abcdef0123456789abcdef'',
             exchanges := [(''1.json.gz'', Response (registered ''0123456789abcdef0123456789abcdef''))]\<rparr>)"
  by code_simp

text \<open>
  C3. \<^verbatim>\<open>json_files.insert(0, "1.json.gz")\<close> puts the snapshot at the head of the list
  that is being walked, before the position of the iterator: the next file sent is the
  file that was just answered \<^verbatim>\<open>RESEND_STATIC_DATA\<close>, and the snapshot is not sent in this
  cycle. Here the sample is sent four times, until the connection breaks.
\<close>

theorem resend_sends_same_file_again:
  "send_files_to_server 5 True resend_four_times stale_agent =
     Some (Some ''0123456789abcdef0123456789abcdef'',
       stale_agent\<lparr>exchanges :=
         [(''1.json.gz'', ReadError), (''2.json.gz'', Response resend),
          (''2.json.gz'', Response resend), (''2.json.gz'', Response resend),
          (''2.json.gz'', ConnectionError)]\<rparr>)"
  by code_simp

text \<open>
  As long as the collector answers \<^verbatim>\<open>RESEND_STATIC_DATA\<close>, which it does until it is
  sent the snapshot, the cycle sends the same sample again and does not end.
\<close>

lemma resend_loop_never_ends:
  assumes "json_files st = replicate i ''1.json.gz'' @ [''2.json.gz'']" and "0 < i"
    and "data_dir (host st) = data_dir stale_agent"
  shows "send_loop fuel resend_always i st = None"
  using assms
proof (induction fuel arbitrary: i st)
  case 0
  then show ?case by simp
next
  case (Suc fuel)
  have cur: "json_files st ! i = ''2.json.gz''"
    using Suc.prems(1) by (simp add: nth_append)
  have here: "path_exists (data_dir (host st)) ''2.json.gz''"
    "path_exists (data_dir (host st)) ''1.json.gz''"
    using Suc.prems(3) by (simp_all add: path_exists_def listdir_def stale_agent_def)
  define st1 where "st1 = (on_host (\<lambda>a. a\<lparr>exchanges := exchanges a @ [(''2.json.gz'', Response resend)]\<rparr>) st)
       \<lparr>json_files := ''1.json.gz'' # json_files st\<rparr>"
  have step: "send_iter (resend_always i) i st = Next st1"
    using Suc.prems(2) cur here
    by (simp add: send_iter_def Let_def resend_always_def resend_def st1_def)
  have "send_loop fuel resend_always (Suc i) st1 = None"
  proof (rule Suc.IH)
    show "json_files st1 = replicate (Suc i) ''1.json.gz'' @ [''2.json.gz'']"
      using Suc.prems(1) by (simp add: st1_def)
    show "0 < Suc i" by simp
    show "data_dir (host st1) = data_dir stale_agent"
      using Suc.prems(3) by (simp add: st1_def)
  qed
  with step Suc.prems(1) show ?case by simp
qed

theorem resend_cycle_never_returns:
  "send_files_to_server fuel True resend_always stale_agent = None"
proof -
  define st0 where "st0 = \<lparr>host = stale_agent, json_files = [''1.json.gz'', ''2.json.gz''],
     machine_id = get_machine_id stale_agent\<rparr>"
  have files: "pending_files (data_dir stale_agent) (get_machine_id stale_agent) =
      [''1.json.gz'', ''2.json.gz'']"
    by code_simp
  have "send_loop fuel resend_always 0 st0 = None"
  proof (cases fuel)
    case 0
    then show ?thesis by simp
  next
    case (Suc n)
    define st1 where "st1 = on_host (\<lambda>a. a\<lparr>exchanges := exchanges a @ [(''1.json.gz'', ReadError)]\<rparr>) st0"
    have step: "send_iter (resend_always 0) 0 st0 = Next st1"
      by (simp add: send_iter_def Let_def resend_always_def st0_def st1_def path_exists_def
            listdir_def stale_agent_def)
    have "send_loop n resend_always (Suc 0) st1 = None"
      by (rule resend_loop_never_ends) (simp_all add: st1_def st0_def)
    with step Suc show ?thesis by (simp add: st0_def)
  qed
  then show ?thesis
    by (simp add: send_files_to_server_def Let_def files st0_def)
qed

text \<open>
  C8, as the code has it. When the spool has reached \<^verbatim>\<open>STORAGE_LIMIT\<close> at the start of a
  pass, the loop of \<^verbatim>\<open>continuous_collection\<close> is left at once: nothing is captured or
  sent in this pass, and there is no later pass.
\<close>

theorem storage_limit_ends_collection:
  assumes "is_storage_limit_reached (agent_state c)"
  shows "collection_loop (t # ts) c = Exited c"
  using assms by (simp add: collection_iter_def)

lemma full_spool_limit: "is_storage_limit_reached full_spool"
  by (simp add: is_storage_limit_reached_def get_data_directory_size_def full_spool_def
        STORAGE_LIMIT_def endswith_def suffix_def)

theorem storage_limit_ends_collection_witness:
  "is_storage_limit_reached full_spool \<and>
   collection_loop [good_tick 40, good_tick 80]
      \<lparr>agent_state = full_spool, known_id = Some ''0123456789abcdef0123456789abcdef'',
        last_send_time = 0\<rparr>
    = Exited \<lparr>agent_state = full_spool, known_id = Some ''0123456789abcdef0123456789abcdef'',
        last_send_time = 0\<rparr>"
  using storage_limit_ends_collection [of "\<lparr>agent_state = full_spool,
      known_id = Some ''0123456789abcdef0123456789abcdef'', last_send_time = 0\<rparr>"
      "good_tick 40" "[good_tick 80]"] full_spool_limit
  by simp

lemma first_free_ge: "c \<le> first_free names c"
proof (induction names c rule: first_free.induct)
  case (1 names c)
  show ?case
  proof (cases "spool_name c \<in> set names")
    case True
    with 1 show ?thesis by (subst first_free.simps) simp
  next
    case False
    then show ?thesis by (subst first_free.simps) simp
  qed
qed

lemma first_free_absent: "spool_name (first_free names c) \<notin> set names"
proof (induction names c rule: first_free.induct)
  case (1 names c)
  show ?case
  proof (cases "spool_name c \<in> set names")
    case True
    with 1 show ?thesis by (subst first_free.simps) simp
  next
    case False
    then show ?thesis by (subst first_free.simps) simp
  qed
qed

lemma first_free_below: "c \<le> n \<Longrightarrow> n < first_free names c \<Longrightarrow> spool_name n \<in> set names"
proof (induction names c rule: first_free.induct)
  case (1 names c)
  show ?case
  proof (cases "spool_name c \<in> set names")
    case True
    then have ff: "first_free names c = first_free names (Suc c)"
      by (subst first_free.simps) simp
    show ?thesis
    proof (cases "n = c")
      case True
      with \<open>spool_name c \<in> set names\<close> show ?thesis by simp
    next
      case False
      with "1.prems" have "Suc c \<le> n" by simp
      with 1 True ff show ?thesis by simp
    qed
  next
    case False
    then have "first_free names c = c" by (subst first_free.simps) simp
    with "1.prems" show ?thesis by simp
  qed
qed

text \<open>
  C6, as the code has it. \<^verbatim>\<open>reset_file_counter\<close> sets the counter to the least number
  from 1 on whose file is not in the spool, and the name \<^verbatim>\<open>get_next_filename\<close> chooses
  is never the name of a file in the spool.
\<close>

theorem counter_resumes_at_first_gap:
  "1 \<le> file_counter (reset_file_counter a)
   \<and> \<not> path_exists (data_dir a) (spool_name (file_counter (reset_file_counter a)))
   \<and> (\<forall>n. 1 \<le> n \<and> n < file_counter (reset_file_counter a)
          \<longrightarrow> path_exists (data_dir a) (spool_name n))
   \<and> \<not> path_exists (data_dir a) (fst (get_next_filename a))"
  using first_free_ge [of 1 "listdir (data_dir a)"]
  by (auto simp: reset_file_counter_def get_next_filename_def path_exists_def Let_def
        first_free_absent dest: first_free_below)

theorem counter_resumes_at_first_gap_witness:
  "file_counter (reset_file_counter gap_agent) = 3
   \<and> path_exists (data_dir gap_agent) (spool_name 1)
   \<and> path_exists (data_dir gap_agent) (spool_name 2)
   \<and> \<not> path_exists (data_dir gap_agent) (spool_name 3)
   \<and> fst (get_next_filename (reset_file_counter gap_agent)) = ''3.json.gz''"
proof -
  have c: "file_counter (reset_file_counter gap_agent) = 3" by code_simp
  have n: "fst (get_next_filename (reset_file_counter gap_agent)) = ''3.json.gz''" by code_simp
  from counter_resumes_at_first_gap [of gap_agent] c n show ?thesis by simp
qed

text \<open>
  C6 as stated fails: with only \<^verbatim>\<open>3.json.gz\<close> left after \<^verbatim>\<open>1.json.gz\<close> and
  \<^verbatim>\<open>2.json.gz\<close> were sent and removed, a restart sets the counter to 1, not 4; the
  snapshot is written as \<^verbatim>\<open>1.json.gz\<close> again and the next sample as \<^verbatim>\<open>2.json.gz\<close>.
\<close>

theorem counter_reuses_sent_numbers:
  "map_option (\<lambda>(m, a). a\<lparr>file_counter := 1, initial_data_saved := False\<rparr>)
     (send_files_to_server 4 True two_acks_then_timeout before_restart) = Some after_restart
   \<and> file_counter (initialize_data_collection after_restart) = 1
   \<and> listdir (data_dir (save_variable_data_to_file 250
         (save_initial_data 2048 (initialize_data_collection after_restart))))
       = [''3.json.gz'', ''1.json.gz'', ''2.json.gz'']"
  by code_simp

text \<open>
  C4. The names are sorted as strings: \<^verbatim>\<open>10.json.gz\<close> is sent before \<^verbatim>\<open>2.json.gz\<close>.
\<close>

theorem pending_files_string_order:
  "pending_files [(''2.json.gz'', 300), (''10.json.gz'', 310)]
     (Some ''0123456789abcdef0123456789abcdef'') = [''10.json.gz'', ''2.json.gz'']"
  by code_simp


lemma strip_hex:
  "strip ''0123456789abcdef0123456789abcdef'' = ''0123456789abcdef0123456789abcdef''"
  by code_simp

lemma full_spool_counter: "first_free (listdir (data_dir full_spool)) 1 = 1"
proof -
  have "first_free [''7.json.gz'', ''8.json.gz''] 1 = 1" by code_simp
  then show ?thesis by (simp add: full_spool_def listdir_def)
qed

text \<open>
  C8 as stated fails: an agent whose spool is at the limit leaves the loop in its first
  pass with both files unsent, although every file sent would have been acknowledged.
\<close>

theorem storage_limit_is_fatal:
  "get_data_directory_size full_spool = STORAGE_LIMIT \<and>
   continuous_collection (good_tick 0) [good_tick 40, good_tick 80] full_spool =
     Exited \<lparr>agent_state = full_spool,
             known_id = Some ''0123456789abcdef0123456789abcdef'', last_send_time = 0\<rparr>"
proof -
  have size: "get_data_directory_size full_spool = STORAGE_LIMIT"
    by (simp add: get_data_directory_size_def full_spool_def STORAGE_LIMIT_def endswith_def
          suffix_def)
  have init: "initialize_data_collection full_spool = full_spool"
    using full_spool_counter
    by (simp add: initialize_data_collection_def reset_file_counter_def)
       (simp add: full_spool_def path_exists_def listdir_def)
  have ident: "get_machine_id full_spool = Some ''0123456789abcdef0123456789abcdef''"
    by (simp add: get_machine_id_def full_spool_def strip_hex)
  have "continuous_collection (good_tick 0) [good_tick 40, good_tick 80] full_spool =
     Exited \<lparr>agent_state = full_spool,
             known_id = Some ''0123456789abcdef0123456789abcdef'', last_send_time = 0\<rparr>"
    using full_spool_limit
    by (simp add: continuous_collection_def init ident is_set_def collection_iter_def good_tick_def)
  with size show ?thesis by simp
qed

end
